theory Spec2Isabelle
  imports Complex_Main
begin

section \<open>Data model\<close>

text \<open>
  Millimetre quantities are \<open>float64\<close> values in the Go sources and reals here. The
  convergence loop branches on a distance it computes, so every \<open>float64\<close> operation of the
  loop is modelled with its rounding (section on \<open>float64\<close> arithmetic below). Elsewhere,
  in the centroids, offsets and norms of the detection pipeline and the pick sequence, each
  \<open>float64\<close> operation is taken as the real operation. Go's \<open>int\<close> is modelled as \<open>int\<close>
  (indices) or \<open>nat\<close> (lengths and counters); no integer arithmetic in the modelled code
  can overflow. The mutex \<open>mu\<close> and the logger are not modelled: every function below is
  one sequential run of the corresponding Go method.
\<close>

subsection \<open>Geometry (r3.Vector, spatialmath.Pose, referenceframe.PoseInFrame)\<close>

record Vector =
  X :: real
  Y :: real
  Z :: real

definition zeroVector :: Vector where
  "zeroVector = \<lparr>X = 0, Y = 0, Z = 0\<rparr>"

datatype Orientation = OrientationVectorDegrees real real real real
  \<comment> \<open>fields in the order Theta, OX, OY, OZ\<close>

record Pose =
  Point :: Vector
  Orientation :: Orientation

definition NewPose :: "Vector \<Rightarrow> Orientation \<Rightarrow> Pose" where
  "NewPose p ori = \<lparr>Point = p, Orientation = ori\<rparr>"

definition NewPoseFromPoint :: "Vector \<Rightarrow> Pose" where
  "NewPoseFromPoint p = NewPose p (OrientationVectorDegrees 0 0 0 1)"

record PoseInFrame =
  parent :: string
  pose :: Pose

definition NewPoseInFrame :: "string \<Rightarrow> Pose \<Rightarrow> PoseInFrame" where
  "NewPoseInFrame frame p = \<lparr>parent = frame, pose = p\<rparr>"

definition vecNorm :: "Vector \<Rightarrow> real" where
  "vecNorm v = sqrt (X v * X v + Y v * Y v + Z v * Z v)"

subsection \<open>Errors\<close>

text \<open>
  One constructor per \<open>fmt.Errorf\<close> site; \<open>External\<close> is an error value handed back by
  a collaborator (arm, gripper, camera, motion service, segmentation library).
  \<open>IndexPanic i n\<close> is not an error value: it is the Go runtime panic
  ``index out of range [i] with length n'' raised by a slice access.
\<close>

datatype err =
    External string
  | MissingCommand
  | UnknownCommand string
  | DetectionFailed err
  | InvalidSegmentationConfig err
  | SegmentationFailed err
  | ObjectIndexOutOfRange int nat
  | NoPreviousDetection
  | FailedOpenGripper err
  | FailedMoveApproach err
  | NoPathApproach
  | FailedArmPosition err
  | FailedMoveGrasp err
  | FailedGrab err
  | FailedGripperPose err
  | StepMoveFailed nat err
  | StepNoPath nat
  | DidNotReachTarget nat
  | IndexPanic int nat

subsection \<open>Dynamic values (map[string]interface{})\<close>

text \<open>
  A Go map literal is kept as an association list in the order the source writes its keys;
  it is only ever read through \<open>map_of\<close>.
\<close>

datatype val =
    VBool bool
  | VInt int
  | VNum real
  | VStr string
  | VList "val list"
  | VMap "(string \<times> val) list"

type_synonym gomap = "(string \<times> val) list"

subsection \<open>Configuration\<close>

record SegmentationConfig =
  MinPtsInPlane :: int
  MaxDistFromPlane :: real
  GroundNormal :: "real list"
  AngleTolerance :: real
  MinPtsInSegment :: int
  ClusteringRadiusMm :: real
  MeanKFiltering :: int
  MaxDepthMm :: real
  MaxPointCount :: int

text \<open>
  \<open>MaxDepthMm\<close>, \<open>MaxPointCount\<close> and \<open>DetectionFrame\<close> are read by the detection and
  pick code and set by the command-line front end; they are fields of the configuration
  structs as those functions use them.
\<close>

record Config =
  Arm :: string
  Camera :: string
  Gripper :: string
  DetectionFrame :: string
  ApproachOffsetMm :: real
  GraspDepthOffsetMm :: real
  LiftHeightMm :: real
  Segmentation :: SegmentationConfig

definition groundNormalVec :: "SegmentationConfig \<Rightarrow> Vector" where
  "groundNormalVec sc =
     (if length (GroundNormal sc) = 3
      then \<lparr>X = GroundNormal sc ! 0, Y = GroundNormal sc ! 1, Z = GroundNormal sc ! 2\<rparr>
      else \<lparr>X = 0, Y = 0, Z = 1\<rparr>)"

record RadiusClusteringConfig =
  rcMinPtsInPlane :: int
  rcMaxDistFromPlane :: real
  rcNormalVec :: Vector
  rcAngleTolerance :: real
  rcMinPtsInSegment :: int
  rcClusteringRadiusMm :: real
  rcMeanKFiltering :: int

subsection \<open>Detected objects and Go slices\<close>

record DetectedObject =
  Center :: Vector
  PointCount :: nat

text \<open>
  A Go slice is either \<open>nil\<close> (\<open>None\<close>) or a non-nil slice (\<open>Some xs\<close>); \<open>len\<close> of
  a nil slice is \<open>0\<close> and \<open>append\<close> to a nil slice allocates.
\<close>

type_synonym 'a slice = "'a list option"

definition len :: "'a slice \<Rightarrow> nat" where
  "len xs = (case xs of None \<Rightarrow> 0 | Some ys \<Rightarrow> length ys)"

definition elems :: "'a slice \<Rightarrow> 'a list" where
  "elems xs = (case xs of None \<Rightarrow> [] | Some ys \<Rightarrow> ys)"

definition append_slice :: "'a slice \<Rightarrow> 'a \<Rightarrow> 'a slice" where
  "append_slice xs x = Some (elems xs @ [x])"

text \<open>A point cloud is the list of its points; \<open>Size\<close> is its length.\<close>

type_synonym PointCloud = "Vector list"

section \<open>External collaborators\<close>

text \<open>
  The arm, gripper, camera/segmentation library and motion service are external. Their
  behaviour is a parameter: a record of functions over an arbitrary collaborator state
  \<open>'w\<close>, each returning its answer and the next collaborator state. \<open>CheckValid\<close> and
  \<open>Compose\<close> are pure library functions.
\<close>

record 'w robot =
  Open :: "'w \<Rightarrow> err option \<times> 'w"
  Grab :: "'w \<Rightarrow> (err + bool) \<times> 'w"
  IsHoldingSomething :: "'w \<Rightarrow> (err + bool) \<times> 'w"
  EndPosition :: "'w \<Rightarrow> (err + Pose) \<times> 'w"
  MoveToPosition :: "Pose \<Rightarrow> 'w \<Rightarrow> err option \<times> 'w"
  GetPose :: "string \<Rightarrow> string \<Rightarrow> 'w \<Rightarrow> (err + Pose) \<times> 'w"
  Move :: "string \<Rightarrow> PoseInFrame \<Rightarrow> 'w \<Rightarrow> (err + bool) \<times> 'w"
  CheckValid :: "RadiusClusteringConfig \<Rightarrow> err option"
  RadiusClustering :: "RadiusClusteringConfig \<Rightarrow> 'w \<Rightarrow> (err + PointCloud list) \<times> 'w"
  Compose :: "Pose \<Rightarrow> Pose \<Rightarrow> Pose"

text \<open>Every call to a collaborator is recorded, with its arguments and its answer.\<close>

datatype call =
    GripperOpen "err option"
  | GripperGrab "err + bool"
  | GripperIsHoldingSomething "err + bool"
  | ArmEndPosition "err + Pose"
  | ArmMoveToPosition Pose "err option"
  | MotionGetPose string string "err + Pose"
  | MotionMove string PoseInFrame "err + bool"
  | CameraRadiusClustering "err + PointCloud list"

section \<open>The service (service.go)\<close>

text \<open>
  The \<open>handEyeTest\<close> struct: its configuration, the state of the collaborators behind the
  \<open>arm\<close>, \<open>camera\<close>, \<open>gripper\<close> and \<open>motion\<close> handles, the log of calls made to them, and
  the three session fields.
\<close>

record 'w handEyeTest =
  cfg :: Config
  world :: 'w
  calls :: "call list"
  lastDetection :: "DetectedObject slice"
  currentStatus :: string
  lastResult :: "gomap option"

definition NewHandEyeTest :: "Config \<Rightarrow> 'w \<Rightarrow> 'w handEyeTest" where
  "NewHandEyeTest c w =
     \<lparr>cfg = c, world = w, calls = [], lastDetection = None,
      currentStatus = ''idle'', lastResult = None\<rparr>"

definition gripperOpen :: "'w robot \<Rightarrow> 'w handEyeTest \<Rightarrow> err option \<times> 'w handEyeTest" where
  "gripperOpen M s =
     (case Open M (world s) of
        (r, w) \<Rightarrow> (r, s\<lparr>world := w, calls := calls s @ [GripperOpen r]\<rparr>))"

definition gripperGrab :: "'w robot \<Rightarrow> 'w handEyeTest \<Rightarrow> (err + bool) \<times> 'w handEyeTest" where
  "gripperGrab M s =
     (case Grab M (world s) of
        (r, w) \<Rightarrow> (r, s\<lparr>world := w, calls := calls s @ [GripperGrab r]\<rparr>))"

definition gripperIsHoldingSomething ::
  "'w robot \<Rightarrow> 'w handEyeTest \<Rightarrow> (err + bool) \<times> 'w handEyeTest" where
  "gripperIsHoldingSomething M s =
     (case IsHoldingSomething M (world s) of
        (r, w) \<Rightarrow> (r, s\<lparr>world := w, calls := calls s @ [GripperIsHoldingSomething r]\<rparr>))"

definition armEndPosition :: "'w robot \<Rightarrow> 'w handEyeTest \<Rightarrow> (err + Pose) \<times> 'w handEyeTest" where
  "armEndPosition M s =
     (case EndPosition M (world s) of
        (r, w) \<Rightarrow> (r, s\<lparr>world := w, calls := calls s @ [ArmEndPosition r]\<rparr>))"

definition armMoveToPosition ::
  "'w robot \<Rightarrow> Pose \<Rightarrow> 'w handEyeTest \<Rightarrow> err option \<times> 'w handEyeTest" where
  "armMoveToPosition M p s =
     (case MoveToPosition M p (world s) of
        (r, w) \<Rightarrow> (r, s\<lparr>world := w, calls := calls s @ [ArmMoveToPosition p r]\<rparr>))"

definition motionGetPose ::
  "'w robot \<Rightarrow> string \<Rightarrow> string \<Rightarrow> 'w handEyeTest \<Rightarrow> (err + Pose) \<times> 'w handEyeTest" where
  "motionGetPose M component frame s =
     (case GetPose M component frame (world s) of
        (r, w) \<Rightarrow> (r, s\<lparr>world := w, calls := calls s @ [MotionGetPose component frame r]\<rparr>))"

definition motionMove ::
  "'w robot \<Rightarrow> string \<Rightarrow> PoseInFrame \<Rightarrow> 'w handEyeTest \<Rightarrow> (err + bool) \<times> 'w handEyeTest" where
  "motionMove M component dest s =
     (case Move M component dest (world s) of
        (r, w) \<Rightarrow> (r, s\<lparr>world := w, calls := calls s @ [MotionMove component dest r]\<rparr>))"

definition radiusClustering ::
  "'w robot \<Rightarrow> RadiusClusteringConfig \<Rightarrow> 'w handEyeTest \<Rightarrow>
   (err + PointCloud list) \<times> 'w handEyeTest" where
  "radiusClustering M segCfg s =
     (case RadiusClustering M segCfg (world s) of
        (r, w) \<Rightarrow> (r, s\<lparr>world := w, calls := calls s @ [CameraRadiusClustering r]\<rparr>))"

section \<open>Detection pipeline (detect.go)\<close>

fun sumVectors :: "Vector list \<Rightarrow> Vector" where
  "sumVectors [] = zeroVector"
| "sumVectors (p # ps) =
     \<lparr>X = X p + X (sumVectors ps), Y = Y p + Y (sumVectors ps), Z = Z p + Z (sumVectors ps)\<rparr>"

definition computeCenter :: "PointCloud \<Rightarrow> Vector" where
  "computeCenter cloud =
     (let sum = sumVectors cloud; count = length cloud
      in if count = 0 then zeroVector
         else \<lparr>X = X sum / real count, Y = Y sum / real count, Z = Z sum / real count\<rparr>)"

text \<open>The body of the \<open>for _, obj := range objects\<close> loop, for one cluster.\<close>

definition keepCluster :: "Config \<Rightarrow> DetectedObject slice \<Rightarrow> PointCloud \<Rightarrow> DetectedObject slice" where
  "keepCluster c detected obj =
     (let center = computeCenter obj
      in if MaxDepthMm (Segmentation c) > 0 \<and> Z center > MaxDepthMm (Segmentation c)
         then detected
         else if MaxPointCount (Segmentation c) > 0
                 \<and> int (length obj) > MaxPointCount (Segmentation c)
         then detected
         else append_slice detected \<lparr>Center = center, PointCount = length obj\<rparr>)"

definition segCfgOf :: "Config \<Rightarrow> RadiusClusteringConfig" where
  "segCfgOf c =
     \<lparr>rcMinPtsInPlane = MinPtsInPlane (Segmentation c),
      rcMaxDistFromPlane = MaxDistFromPlane (Segmentation c),
      rcNormalVec = groundNormalVec (Segmentation c),
      rcAngleTolerance = AngleTolerance (Segmentation c),
      rcMinPtsInSegment = MinPtsInSegment (Segmentation c),
      rcClusteringRadiusMm = ClusteringRadiusMm (Segmentation c),
      rcMeanKFiltering = MeanKFiltering (Segmentation c)\<rparr>"

definition detectObjects ::
  "'w robot \<Rightarrow> 'w handEyeTest \<Rightarrow> (err + DetectedObject slice) \<times> 'w handEyeTest" where
  "detectObjects M s =
     (let segCfg = segCfgOf (cfg s)
      in case CheckValid M segCfg of
           Some e \<Rightarrow> (Inl (InvalidSegmentationConfig e), s)
         | None \<Rightarrow>
            (case radiusClustering M segCfg s of
               (Inl e, s1) \<Rightarrow> (Inl (SegmentationFailed e), s1)
             | (Inr objects, s1) \<Rightarrow>
                 if length objects = 0 then (Inr None, s1)
                 else (Inr (foldl (keepCluster (cfg s)) None objects), s1)))"

section \<open>float64 arithmetic\<close>

text \<open>
  IEEE 754 binary64 as Go computes it on amd64, where no operations are fused: every
  operation returns the exact real result rounded to the nearest representable number,
  ties to even. A finite \<open>float64\<close> is \<open>m * 2 ^ e\<close> with \<open>\<bar>m\<bar> < 2 ^ 53\<close> and \<open>e \<ge> -1074\<close>;
  \<open>fl\<close> rounds a real to such a number. Overflow to infinity and NaN are not modelled: the
  operands are finite and far below \<open>2 ^ 1023\<close>.
\<close>

definition roundEven :: "real \<Rightarrow> int" where
  \<comment> \<open>the nearest integer, the even one of two equally near\<close>
  "roundEven q =
     (let f = \<lfloor>q\<rfloor>; r = q - of_int f
      in if r < 1 / 2 then f else if r > 1 / 2 then f + 1 else if even f then f else f + 1)"

definition fl :: "real \<Rightarrow> real" where
  "fl x =
     (if x = 0 then 0
      else (let e = max (\<lfloor>log 2 \<bar>x\<bar>\<rfloor> - 52) (- 1074)
            in of_int (roundEven (x / 2 powi e)) * 2 powi e))"

definition fadd :: "real \<Rightarrow> real \<Rightarrow> real" where
  "fadd a b = fl (a + b)"

definition fsub :: "real \<Rightarrow> real \<Rightarrow> real" where
  "fsub a b = fl (a - b)"

definition fmul :: "real \<Rightarrow> real \<Rightarrow> real" where
  "fmul a b = fl (a * b)"

definition fdiv :: "real \<Rightarrow> real \<Rightarrow> real" where
  "fdiv a b = fl (a / b)"

definition fsqrt :: "real \<Rightarrow> real" where
  \<comment> \<open>\<open>math.Sqrt\<close>, correctly rounded\<close>
  "fsqrt a = fl (sqrt a)"

section \<open>Convergence controller (move.go)\<close>

definition maxSteps :: nat where
  "maxSteps = 200"

text \<open>
  The \<open>for steps = 0; steps < maxSteps; steps++\<close> loop. It returns the value of \<open>steps\<close>
  with which the loop is left (by \<open>break\<close> or by its condition), or the error of an
  early \<open>return\<close>.
\<close>

function moveLoop ::
  "'w robot \<Rightarrow> Vector \<Rightarrow> real \<Rightarrow> nat \<Rightarrow> 'w handEyeTest \<Rightarrow> (err + nat) \<times> 'w handEyeTest" where
  "moveLoop M target stepSize steps s =
     (if steps < maxSteps then
        (case motionGetPose M (Gripper (cfg s)) ''world'' s of
           (Inl e, s1) \<Rightarrow> (Inl (FailedGripperPose e), s1)
         | (Inr gripperPose, s1) \<Rightarrow>
            (let currentPos = Point gripperPose;
                 currentOri = Orientation gripperPose;
                 diff = \<lparr>X = fsub (X target) (X currentPos),
                         Y = fsub (Y target) (Y currentPos),
                         Z = fsub (Z target) (Z currentPos)\<rparr>;
                 dist = fsqrt (fadd (fadd (fmul (X diff) (X diff)) (fmul (Y diff) (Y diff)))
                                    (fmul (Z diff) (Z diff)))
             in if dist \<le> 1 then (Inr steps, s1)
                else
                  (let nextPoint =
                         (if dist \<le> stepSize then target
                          else (let direction = \<lparr>X = fdiv (X diff) dist,
                                                   Y = fdiv (Y diff) dist,
                                                   Z = fdiv (Z diff) dist\<rparr>
                                in \<lparr>X = fadd (X currentPos) (fmul (X direction) stepSize),
                                    Y = fadd (Y currentPos) (fmul (Y direction) stepSize),
                                    Z = fadd (Z currentPos) (fmul (Z direction) stepSize)\<rparr>));
                       dest = NewPoseInFrame ''world'' (NewPose nextPoint currentOri)
                   in case motionMove M (Gripper (cfg s1)) dest s1 of
                        (Inl e, s2) \<Rightarrow> (Inl (StepMoveFailed steps e), s2)
                      | (Inr success, s2) \<Rightarrow>
                          if \<not> success then (Inl (StepNoPath steps), s2)
                          else moveLoop M target stepSize (steps + 1) s2)))
      else (Inr steps, s))"
  by pat_completeness auto
termination
  by (relation "measure (\<lambda>(M, target, stepSize, steps, s). maxSteps - steps)") auto

declare moveLoop.simps [simp del]

definition vectorMap :: "Vector \<Rightarrow> val" where
  "vectorMap v = VMap [(''x_mm'', VNum (X v)), (''y_mm'', VNum (Y v)), (''z_mm'', VNum (Z v))]"

definition handleMoveTo ::
  "'w robot \<Rightarrow> Vector \<Rightarrow> real \<Rightarrow> 'w handEyeTest \<Rightarrow> (err + gomap) \<times> 'w handEyeTest" where
  "handleMoveTo M target stepSize s =
     (case moveLoop M target stepSize 0 (s\<lparr>currentStatus := ''moving''\<rparr>) of
        (Inl e, s1) \<Rightarrow> (Inl e, s1\<lparr>currentStatus := ''idle''\<rparr>)
      | (Inr steps, s1) \<Rightarrow>
          if steps \<ge> maxSteps
          then (Inl (DidNotReachTarget maxSteps), s1\<lparr>currentStatus := ''idle''\<rparr>)
          else
            (case motionGetPose M (Gripper (cfg s1)) ''world'' s1 of
               (r, s2) \<Rightarrow>
                 (let finalPos = (case r of Inl e \<Rightarrow> zeroVector | Inr finalPose \<Rightarrow> Point finalPose)
                  in (Inr [(''success'', VBool True),
                           (''steps'', VInt (int steps)),
                           (''final_position'', vectorMap finalPos),
                           (''target'', vectorMap target)],
                      s2\<lparr>currentStatus := ''idle''\<rparr>))))"

section \<open>Pick orchestrator (pick.go)\<close>

text \<open>
  \<open>StepsCompleted\<close> is a string slice that is only appended to and read; it is kept as
  a list (the nil slice is the empty list).
\<close>

record pickResult =
  Success :: bool
  IsHolding :: bool
  DetectedPosition :: Vector
  DetectionFrame :: string
  ObjectPositionWorldFrame :: Vector
  GripperPositionWorldFrame :: Vector
  ApproachOffsetMm :: Vector
  WorldFrameOffsetMm :: Vector
  StepsCompleted :: "string list"

definition toMap :: "pickResult \<Rightarrow> gomap" where
  "toMap r =
     [(''success'', VBool (Success r)),
      (''is_holding'', VBool (IsHolding r)),
      (''detected_position'',
         VMap [(''x_mm'', VNum (X (DetectedPosition r))), (''y_mm'', VNum (Y (DetectedPosition r))),
               (''z_mm'', VNum (Z (DetectedPosition r))), (''frame'', VStr (DetectionFrame r))]),
      (''object_position_world_frame'',
         VMap [(''x_mm'', VNum (X (ObjectPositionWorldFrame r))),
               (''y_mm'', VNum (Y (ObjectPositionWorldFrame r))),
               (''z_mm'', VNum (Z (ObjectPositionWorldFrame r))), (''frame'', VStr ''world'')]),
      (''gripper_position_world_frame'',
         VMap [(''x_mm'', VNum (X (GripperPositionWorldFrame r))),
               (''y_mm'', VNum (Y (GripperPositionWorldFrame r))),
               (''z_mm'', VNum (Z (GripperPositionWorldFrame r))), (''frame'', VStr ''world'')]),
      (''approach_offset_mm'',
         VMap [(''x'', VNum (X (ApproachOffsetMm r))), (''y'', VNum (Y (ApproachOffsetMm r))),
               (''z'', VNum (Z (ApproachOffsetMm r))),
               (''total'', VNum (vecNorm (ApproachOffsetMm r)))]),
      (''world_frame_offset_mm'',
         VMap [(''x'', VNum (X (WorldFrameOffsetMm r))), (''y'', VNum (Y (WorldFrameOffsetMm r))),
               (''z'', VNum (Z (WorldFrameOffsetMm r))),
               (''total'', VNum (vecNorm (WorldFrameOffsetMm r)))]),
      (''steps_completed'', VList (map VStr (StepsCompleted r)))]"

definition completed :: "pickResult \<Rightarrow> string \<Rightarrow> pickResult" where
  \<comment> \<open>\<open>result.StepsCompleted = append(result.StepsCompleted, name)\<close>\<close>
  "completed r name = r\<lparr>StepsCompleted := StepsCompleted r @ [name]\<rparr>"

text \<open>
  \<open>executePick\<close> is one straight-line function in the source; its numbered steps are
  separate definitions here. A fatal step returns \<open>Inl\<close> where the source returns
  \<open>nil, err\<close>; an advisory step always returns the in-flight result.
\<close>

text \<open>Step 1: open gripper.\<close>

definition stepOpenGripper ::
  "'w robot \<Rightarrow> pickResult \<Rightarrow> 'w handEyeTest \<Rightarrow> (err + pickResult) \<times> 'w handEyeTest" where
  "stepOpenGripper M r s =
     (case gripperOpen M s of
        (Some e, s1) \<Rightarrow> (Inl (FailedOpenGripper e), s1)
      | (None, s1) \<Rightarrow> (Inr (completed r ''open_gripper''), s1))"

text \<open>Steps 2 and 3: compute the approach pose, move there through the motion service.\<close>

definition stepApproach ::
  "'w robot \<Rightarrow> DetectedObject \<Rightarrow> string \<Rightarrow> bool \<Rightarrow> pickResult \<Rightarrow> 'w handEyeTest \<Rightarrow>
   (err + pickResult) \<times> 'w handEyeTest" where
  "stepApproach M obj detectionFrame isWorldFrame r s =
     (let approachPoint =
            (if isWorldFrame
             then \<lparr>X = X (Center obj), Y = Y (Center obj),
                   Z = Z (Center obj) + Config.ApproachOffsetMm (cfg s)\<rparr>
             else \<lparr>X = X (Center obj), Y = Y (Center obj),
                   Z = Z (Center obj) - Config.ApproachOffsetMm (cfg s)\<rparr>);
          (approachOrientation, s1) =
            (if isWorldFrame
             then (case motionGetPose M (Gripper (cfg s)) ''world'' s of
                     (Inl e, s') \<Rightarrow> (OrientationVectorDegrees 180 0 1 0, s')
                   | (Inr gripperPose, s') \<Rightarrow> (Orientation gripperPose, s'))
             else (OrientationVectorDegrees 0 0 0 1, s));
          approachPose = NewPose approachPoint approachOrientation;
          approachDest = NewPoseInFrame detectionFrame approachPose
      in case motionMove M (Gripper (cfg s1)) approachDest s1 of
           (Inl e, s2) \<Rightarrow> (Inl (FailedMoveApproach e), s2)
         | (Inr success, s2) \<Rightarrow>
             if \<not> success then (Inl NoPathApproach, s2)
             else (Inr (completed r ''approach''), s2))"

text \<open>Step 4: re-detect from the approach position (advisory).\<close>

definition stepReDetect ::
  "'w robot \<Rightarrow> DetectedObject \<Rightarrow> pickResult \<Rightarrow> 'w handEyeTest \<Rightarrow> pickResult \<times> 'w handEyeTest" where
  "stepReDetect M obj r s =
     (case detectObjects M s of
        (Inl e, s1) \<Rightarrow> (completed r ''re_detect'', s1)
      | (Inr redetectedObjects, s1) \<Rightarrow>
          if len redetectedObjects > 0
          then (let redetected = elems redetectedObjects ! 0
                in (completed
                      (r\<lparr>ApproachOffsetMm :=
                           \<lparr>X = X (Center redetected) - X (Center obj),
                            Y = Y (Center redetected) - Y (Center obj),
                            Z = Z (Center redetected) - Z (Center obj)\<rparr>\<rparr>)
                      ''re_detect'', s1))
          else (completed r ''re_detect'', s1))"

text \<open>Step 5: direct Cartesian move to the grasp position.\<close>

definition stepGraspPosition ::
  "'w robot \<Rightarrow> pickResult \<Rightarrow> 'w handEyeTest \<Rightarrow> (err + pickResult) \<times> 'w handEyeTest" where
  "stepGraspPosition M r s =
     (case armEndPosition M s of
        (Inl e, s1) \<Rightarrow> (Inl (FailedArmPosition e), s1)
      | (Inr currentPose, s1) \<Rightarrow>
          (let graspDelta = Config.ApproachOffsetMm (cfg s1) - GraspDepthOffsetMm (cfg s1);
               graspPoint = \<lparr>X = X (Point currentPose), Y = Y (Point currentPose),
                             Z = Z (Point currentPose) - graspDelta\<rparr>;
               graspPose = NewPose graspPoint (Orientation currentPose)
           in case armMoveToPosition M graspPose s1 of
                (Some e, s2) \<Rightarrow> (Inl (FailedMoveGrasp e), s2)
              | (None, s2) \<Rightarrow> (Inr (completed r ''grasp_position''), s2)))"

text \<open>Step 6: world-frame comparison (advisory; appends no step name).\<close>

definition stepWorldFrame ::
  "'w robot \<Rightarrow> DetectedObject \<Rightarrow> bool \<Rightarrow> pickResult \<Rightarrow> 'w handEyeTest \<Rightarrow>
   pickResult \<times> 'w handEyeTest" where
  "stepWorldFrame M obj isWorldFrame r s =
     (case motionGetPose M (Gripper (cfg s)) ''world'' s of
        (Inl e, s1) \<Rightarrow> (r, s1)
      | (Inr gripperWorldPose, s1) \<Rightarrow>
          (let gripperPos = Point gripperWorldPose;
               r1 = r\<lparr>GripperPositionWorldFrame := gripperPos\<rparr>;
               (r2, s2) =
                 (if isWorldFrame then (r1\<lparr>ObjectPositionWorldFrame := Center obj\<rparr>, s1)
                  else (case motionGetPose M (Camera (cfg s1)) ''world'' s1 of
                          (Inl e, s') \<Rightarrow> (r1, s')
                        | (Inr cameraPose, s') \<Rightarrow>
                            (let objectInWorld = Compose M cameraPose (NewPoseFromPoint (Center obj))
                             in (r1\<lparr>ObjectPositionWorldFrame := Point objectInWorld\<rparr>, s'))))
           in if ObjectPositionWorldFrame r2 \<noteq> zeroVector
              then (r2\<lparr>WorldFrameOffsetMm :=
                         \<lparr>X = X gripperPos - X (ObjectPositionWorldFrame r2),
                          Y = Y gripperPos - Y (ObjectPositionWorldFrame r2),
                          Z = Z gripperPos - Z (ObjectPositionWorldFrame r2)\<rparr>\<rparr>, s2)
              else (r2, s2)))"

text \<open>Step 7: grab.\<close>

definition stepGrab ::
  "'w robot \<Rightarrow> pickResult \<Rightarrow> 'w handEyeTest \<Rightarrow> (err + pickResult) \<times> 'w handEyeTest" where
  "stepGrab M r s =
     (case gripperGrab M s of
        (Inl e, s1) \<Rightarrow> (Inl (FailedGrab e), s1)
      | (Inr grabbed, s1) \<Rightarrow> (Inr (completed r ''grab''), s1))"

text \<open>Step 8: lift (advisory).\<close>

definition stepLift ::
  "'w robot \<Rightarrow> pickResult \<Rightarrow> 'w handEyeTest \<Rightarrow> pickResult \<times> 'w handEyeTest" where
  "stepLift M r s =
     (case armEndPosition M s of
        (Inl e, s1) \<Rightarrow> (completed r ''lift'', s1)
      | (Inr currentPose, s1) \<Rightarrow>
          (let liftPoint = \<lparr>X = X (Point currentPose), Y = Y (Point currentPose),
                            Z = Z (Point currentPose) + LiftHeightMm (cfg s1)\<rparr>;
               liftPose = NewPose liftPoint (Orientation currentPose)
           in case armMoveToPosition M liftPose s1 of
                (e, s2) \<Rightarrow> (completed r ''lift'', s2)))"

text \<open>Step 9: verify (advisory).\<close>

definition stepVerify ::
  "'w robot \<Rightarrow> pickResult \<Rightarrow> 'w handEyeTest \<Rightarrow> pickResult \<times> 'w handEyeTest" where
  "stepVerify M r s =
     (case gripperIsHoldingSomething M s of
        (Inl e, s1) \<Rightarrow> (completed r ''verify'', s1)
      | (Inr holdingStatus, s1) \<Rightarrow> (completed (r\<lparr>IsHolding := holdingStatus\<rparr>) ''verify'', s1))"

text \<open>The sequence from step 6 to the end of \<open>executePick\<close>.\<close>

definition pickAfterGrasp ::
  "'w robot \<Rightarrow> DetectedObject \<Rightarrow> bool \<Rightarrow> pickResult \<Rightarrow> 'w handEyeTest \<Rightarrow>
   (err + gomap) \<times> 'w handEyeTest" where
  "pickAfterGrasp M obj isWorldFrame r s =
     (case stepWorldFrame M obj isWorldFrame r s of
        (r6, s6) \<Rightarrow>
          (case stepGrab M r6 s6 of
             (Inl e, s7) \<Rightarrow> (Inl e, s7)
           | (Inr r7, s7) \<Rightarrow>
               (case stepLift M r7 s7 of
                  (r8, s8) \<Rightarrow>
                    (case stepVerify M r8 s8 of
                       (r9, s9) \<Rightarrow> (Inr (toMap (r9\<lparr>Success := IsHolding r9\<rparr>)), s9)))))"

text \<open>The sequence from step 4 to the end of \<open>executePick\<close>.\<close>

definition pickAfterApproach ::
  "'w robot \<Rightarrow> DetectedObject \<Rightarrow> bool \<Rightarrow> pickResult \<Rightarrow> 'w handEyeTest \<Rightarrow>
   (err + gomap) \<times> 'w handEyeTest" where
  "pickAfterApproach M obj isWorldFrame r s =
     (case stepReDetect M obj r s of
        (r4, s4) \<Rightarrow>
          (case stepGraspPosition M r4 s4 of
             (Inl e, s5) \<Rightarrow> (Inl e, s5)
           | (Inr r5, s5) \<Rightarrow> pickAfterGrasp M obj isWorldFrame r5 s5))"

definition newPickResult :: "DetectedObject \<Rightarrow> string \<Rightarrow> pickResult" where
  "newPickResult obj detectionFrame =
     \<lparr>Success = False, IsHolding = False, DetectedPosition = Center obj,
      DetectionFrame = detectionFrame, ObjectPositionWorldFrame = zeroVector,
      GripperPositionWorldFrame = zeroVector, ApproachOffsetMm = zeroVector,
      WorldFrameOffsetMm = zeroVector, StepsCompleted = []\<rparr>"

definition executePick ::
  "'w robot \<Rightarrow> DetectedObject \<Rightarrow> 'w handEyeTest \<Rightarrow> (err + gomap) \<times> 'w handEyeTest" where
  "executePick M obj s =
     (let s0 = s\<lparr>currentStatus := ''picking''\<rparr>;
          detectionFrame =
            (if Config.DetectionFrame (cfg s0) = [] then Camera (cfg s0)
             else Config.DetectionFrame (cfg s0));
          isWorldFrame = (detectionFrame = ''world'');
          result = newPickResult obj detectionFrame
      in case stepOpenGripper M result s0 of
           (Inl e, s1) \<Rightarrow> (Inl e, s1)
         | (Inr r1, s1) \<Rightarrow>
             (case stepApproach M obj detectionFrame isWorldFrame r1 s1 of
                (Inl e, s3) \<Rightarrow> (Inl e, s3)
              | (Inr r3, s3) \<Rightarrow> pickAfterApproach M obj isWorldFrame r3 s3))"

section \<open>Command handlers and dispatch (service.go)\<close>

definition objectMap :: "nat \<Rightarrow> DetectedObject \<Rightarrow> val" where
  "objectMap i obj =
     VMap [(''index'', VInt (int i)),
           (''point_count'', VInt (int (PointCount obj))),
           (''center_x_mm'', VNum (X (Center obj))),
           (''center_y_mm'', VNum (Y (Center obj))),
           (''center_z_mm'', VNum (Z (Center obj)))]"

definition handleDetect :: "'w robot \<Rightarrow> 'w handEyeTest \<Rightarrow> (err + gomap) \<times> 'w handEyeTest" where
  "handleDetect M s =
     (case detectObjects M (s\<lparr>currentStatus := ''detecting''\<rparr>) of
        (Inl e, s1) \<Rightarrow> (Inl (DetectionFailed e), s1\<lparr>currentStatus := ''idle''\<rparr>)
      | (Inr objects, s1) \<Rightarrow>
          (let s2 = s1\<lparr>lastDetection := objects, currentStatus := ''idle''\<rparr>;
               objList = map (\<lambda>(i, obj). objectMap i obj)
                             (zip [0 ..< len objects] (elems objects))
           in (Inr [(''objects'', VList objList), (''count'', VInt (int (len objects)))], s2)))"

text \<open>
  The slice access \<open>objects[objectIndex]\<close>: Go panics when the index is negative or not
  below the length.
\<close>

definition index :: "'a slice \<Rightarrow> int \<Rightarrow> err + 'a" where
  "index xs i =
     (if 0 \<le> i \<and> i < int (len xs) then Inr (elems xs ! nat i) else Inl (IndexPanic i (len xs)))"

definition recordResult :: "err + gomap \<Rightarrow> gomap option" where
  \<comment> \<open>the map half of \<open>executePick\<close>'s \<open>(result, err)\<close> pair: \<open>nil\<close> when it returned an error\<close>
  "recordResult r = (case r of Inl e \<Rightarrow> None | Inr m \<Rightarrow> Some m)"

definition handlePick ::
  "'w robot \<Rightarrow> int \<Rightarrow> 'w handEyeTest \<Rightarrow> (err + gomap) \<times> 'w handEyeTest" where
  "handlePick M objectIndex s =
     (case detectObjects M (s\<lparr>currentStatus := ''detecting''\<rparr>) of
        (Inl e, s1) \<Rightarrow> (Inl (DetectionFailed e), s1\<lparr>currentStatus := ''idle''\<rparr>)
      | (Inr objects, s1) \<Rightarrow>
          (let s2 = s1\<lparr>lastDetection := objects\<rparr>
           in if objectIndex \<ge> int (len objects)
              then (Inl (ObjectIndexOutOfRange objectIndex (len objects)),
                    s2\<lparr>currentStatus := ''idle''\<rparr>)
              else (case index objects objectIndex of
                      Inl p \<Rightarrow> (Inl p, s2)
                    | Inr obj \<Rightarrow>
                        (case executePick M obj s2 of
                           (result, s3) \<Rightarrow>
                             (result, s3\<lparr>currentStatus := ''idle'',
                                          lastResult := recordResult result\<rparr>)))))"

definition handlePickDetected ::
  "'w robot \<Rightarrow> int \<Rightarrow> 'w handEyeTest \<Rightarrow> (err + gomap) \<times> 'w handEyeTest" where
  "handlePickDetected M objectIndex s =
     (let objects = lastDetection s
      in if objects = None then (Inl NoPreviousDetection, s)
         else if objectIndex \<ge> int (len objects)
         then (Inl (ObjectIndexOutOfRange objectIndex (len objects)), s)
         else (case index objects objectIndex of
                 Inl p \<Rightarrow> (Inl p, s)
               | Inr obj \<Rightarrow>
                   (case executePick M obj s of
                      (result, s3) \<Rightarrow>
                        (result, s3\<lparr>currentStatus := ''idle'',
                                     lastResult := recordResult result\<rparr>))))"

definition handleStatus :: "'w handEyeTest \<Rightarrow> (err + gomap) \<times> 'w handEyeTest" where
  "handleStatus s =
     (let result = [(''status'', VStr (currentStatus s))];
          result = (case lastResult s of
                      None \<Rightarrow> result
                    | Some m \<Rightarrow> result @ [(''last_result'', VMap m)]);
          result = (if lastDetection s \<noteq> None
                    then result @ [(''detected_objects'', VInt (int (len (lastDetection s))))]
                    else result)
      in (Inr result, s))"

text \<open>
  \<open>int(idx)\<close> for a \<open>float64\<close>: the fraction is discarded (truncation towards zero). A
  value outside the range of the 64-bit \<open>int\<close> has an implementation-dependent result in
  Go; on amd64 the conversion instruction yields the smallest \<open>int64\<close>.
\<close>

definition goInt :: "real \<Rightarrow> int" where
  "goInt x =
     (let t = (if x \<ge> 0 then \<lfloor>x\<rfloor> else \<lceil>x\<rceil>)
      in if - (2 ^ 63) \<le> t \<and> t < 2 ^ 63 then t else - (2 ^ 63))"

definition objectIndexOf :: "gomap \<Rightarrow> int" where
  \<comment> \<open>\<open>objectIndex := 0; if idx, ok := cmd["object_index"].(float64); ok { objectIndex = int(idx) }\<close>\<close>
  "objectIndexOf cmd = (case map_of cmd ''object_index'' of Some (VNum idx) \<Rightarrow> goInt idx | _ \<Rightarrow> 0)"

definition DoCommand ::
  "'w robot \<Rightarrow> gomap \<Rightarrow> 'w handEyeTest \<Rightarrow> (err + gomap) \<times> 'w handEyeTest" where
  "DoCommand M cmd s =
     (case map_of cmd ''command'' of
        Some (VStr command) \<Rightarrow>
          if command = ''detect'' then handleDetect M s
          else if command = ''pick'' then handlePick M (objectIndexOf cmd) s
          else if command = ''pick_detected'' then handlePickDetected M (objectIndexOf cmd) s
          else if command = ''status'' then handleStatus s
          else (Inl (UnknownCommand command), s)
      | _ \<Rightarrow> (Inl MissingCommand, s))"

section \<open>Observations\<close>

text \<open>
  What a caller or an operator can observe of a run: fields of the returned maps, and the
  recorded calls.
\<close>

definition statusField :: "'w handEyeTest \<Rightarrow> string \<Rightarrow> val option" where
  \<comment> \<open>a field of the map that \<open>status\<close> returns in a given service state\<close>
  "statusField s key = (case fst (handleStatus s) of Inl e \<Rightarrow> None | Inr m \<Rightarrow> map_of m key)"

definition resultField :: "err + gomap \<Rightarrow> string \<Rightarrow> val option" where
  \<comment> \<open>a field of the map a handler returns, absent when it returned an error\<close>
  "resultField r key = (case r of Inl e \<Rightarrow> None | Inr m \<Rightarrow> map_of m key)"

definition newCalls :: "'w handEyeTest \<Rightarrow> 'w handEyeTest \<Rightarrow> call list" where
  \<comment> \<open>the calls made between two service states\<close>
  "newCalls s s' = drop (length (calls s)) (calls s')"

text \<open>
  Whether a recorded call did not succeed: it returned an error, or the motion planner
  answered \<open>false\<close>.
\<close>

fun failed :: "call \<Rightarrow> bool" where
  "failed (GripperOpen r) = (r \<noteq> None)"
| "failed (GripperGrab r) = isl r"
| "failed (GripperIsHoldingSomething r) = isl r"
| "failed (ArmEndPosition r) = isl r"
| "failed (ArmMoveToPosition p r) = (r \<noteq> None)"
| "failed (MotionGetPose component frame r) = isl r"
| "failed (MotionMove component dest r) = (r \<noteq> Inr True)"
| "failed (CameraRadiusClustering r) = isl r"

fun isMove :: "call \<Rightarrow> bool" where
  "isMove (MotionMove component dest r) = True"
| "isMove c = False"

fun isGetPose :: "call \<Rightarrow> bool" where
  "isGetPose (MotionGetPose component frame r) = True"
| "isGetPose c = False"

text \<open>The step names \<open>executePick\<close> appends, in the order of the source.\<close>

definition stepNames :: "string list" where
  "stepNames = [''open_gripper'', ''approach'', ''re_detect'', ''grasp_position'',
                ''grab'', ''lift'', ''verify'']"

text \<open>
  The offsets as the specification words them: a component-wise difference, reported with
  its Euclidean norm \<open>sqrt(x\<^sup>2 + y\<^sup>2 + z\<^sup>2)\<close>; and a reported world-frame position.
\<close>

definition specDifference :: "Vector \<Rightarrow> Vector \<Rightarrow> Vector" where
  "specDifference a b = \<lparr>X = X a - X b, Y = Y a - Y b, Z = Z a - Z b\<rparr>"

definition specOffsetReport :: "Vector \<Rightarrow> val" where
  "specOffsetReport v =
     VMap [(''x'', VNum (X v)), (''y'', VNum (Y v)), (''z'', VNum (Z v)),
           (''total'', VNum (sqrt ((X v)\<^sup>2 + (Y v)\<^sup>2 + (Z v)\<^sup>2)))]"

definition positionReport :: "Vector \<Rightarrow> val" where
  "positionReport v =
     VMap [(''x_mm'', VNum (X v)), (''y_mm'', VNum (Y v)), (''z_mm'', VNum (Z v)),
           (''frame'', VStr ''world'')]"

text \<open>
  The two expressions of one iteration of the convergence loop, in the loop's \<open>float64\<close>
  operations: the distance from a gripper position to the target, and the destination of
  the move (the target itself when it is
  within one step, otherwise the current position advanced by \<open>stepSize\<close> along the unit
  direction, with the current orientation). Lemma \<open>moveLoop_iteration\<close> below shows that
  the loop body is built from exactly these.
\<close>

definition distance :: "Vector \<Rightarrow> Vector \<Rightarrow> real" where
  "distance target p =
     fsqrt (fadd (fadd (fmul (fsub (X target) (X p)) (fsub (X target) (X p)))
                       (fmul (fsub (Y target) (Y p)) (fsub (Y target) (Y p))))
                 (fmul (fsub (Z target) (Z p)) (fsub (Z target) (Z p))))"

definition nextWaypoint :: "Vector \<Rightarrow> real \<Rightarrow> Pose \<Rightarrow> PoseInFrame" where
  "nextWaypoint target stepSize gripperPose =
     (let currentPos = Point gripperPose;
          dist = distance target currentPos
      in NewPoseInFrame ''world''
           (NewPose
              (if dist \<le> stepSize then target
               else \<lparr>X = fadd (X currentPos)
                              (fmul (fdiv (fsub (X target) (X currentPos)) dist) stepSize),
                     Y = fadd (Y currentPos)
                              (fmul (fdiv (fsub (Y target) (Y currentPos)) dist) stepSize),
                     Z = fadd (Z currentPos)
                              (fmul (fdiv (fsub (Z target) (Z currentPos)) dist) stepSize)\<rparr>)
              (Orientation gripperPose)))"

text \<open>The distances a run observed, one per successful pose query.\<close>

fun observedDistances :: "Vector \<Rightarrow> call list \<Rightarrow> real list" where
  "observedDistances target [] = []"
| "observedDistances target (MotionGetPose component frame (Inr p) # cs) =
     distance target (Point p) # observedDistances target cs"
| "observedDistances target (c # cs) = observedDistances target cs"

text \<open>
  Every planner move lands the gripper exactly on the requested waypoint: in every
  collaborator state the pose query reports the gripper's position without moving it, and a
  world-frame move succeeds and leaves the gripper on its destination.
\<close>

definition landsExactly :: "'w robot \<Rightarrow> string \<Rightarrow> ('w \<Rightarrow> Vector) \<Rightarrow> bool" where
  "landsExactly M gripperName position \<longleftrightarrow>
     (\<forall>w. (\<exists>p. fst (GetPose M gripperName ''world'' w) = Inr p \<and> Point p = position w)
          \<and> position (snd (GetPose M gripperName ''world'' w)) = position w)
     \<and> (\<forall>w dest. parent dest = ''world'' \<longrightarrow>
            fst (Move M gripperName dest w) = Inr True
            \<and> position (snd (Move M gripperName dest w)) = Point (pose dest))"

text \<open>
  Positions given in whole millimetres, within \<open>2 ^ 25\<close> mm of the origin on every axis, and
  pairs of positions that differ along one coordinate axis only. Between such positions
  every \<open>float64\<close> operation of the loop has an integer result and does not round.
\<close>

definition wholeMm :: "Vector \<Rightarrow> bool" where
  "wholeMm v \<longleftrightarrow>
     X v \<in> \<int> \<and> Y v \<in> \<int> \<and> Z v \<in> \<int> \<and> \<bar>X v\<bar> \<le> 2 ^ 25 \<and> \<bar>Y v\<bar> \<le> 2 ^ 25 \<and> \<bar>Z v\<bar> \<le> 2 ^ 25"

definition alongAxis :: "Vector \<Rightarrow> Vector \<Rightarrow> bool" where
  "alongAxis a b \<longleftrightarrow>
     (Y a = Y b \<and> Z a = Z b) \<or> (X a = X b \<and> Z a = Z b) \<or> (X a = X b \<and> Y a = Y b)"

section \<open>Simulated collaborators\<close>

text \<open>
  A simulated cell in which every collaborator succeeds: the collaborator state is the
  gripper pose, pose queries report it, moves land exactly on their destination, and the
  camera sees one single-point cluster. \<open>Compose\<close> adds the positions.
\<close>

definition simRobot :: "Pose robot" where
  "simRobot =
     \<lparr>Open = (\<lambda>w. (None, w)),
      Grab = (\<lambda>w. (Inr True, w)),
      IsHoldingSomething = (\<lambda>w. (Inr True, w)),
      EndPosition = (\<lambda>w. (Inr w, w)),
      MoveToPosition = (\<lambda>p w. (None, p)),
      GetPose = (\<lambda>component frame w. (Inr w, w)),
      Move = (\<lambda>component dest w. (Inr True, pose dest)),
      CheckValid = (\<lambda>segCfg. None),
      RadiusClustering = (\<lambda>segCfg w. (Inr [[\<lparr>X = 120, Y = -45, Z = 310\<rparr>]], w)),
      Compose = (\<lambda>a b. \<lparr>Point = \<lparr>X = X (Point a) + X (Point b), Y = Y (Point a) + Y (Point b),
                                   Z = Z (Point a) + Z (Point b)\<rparr>,
                         Orientation = Orientation a\<rparr>)\<rparr>"

text \<open>
  Variants: a gripper that refuses to open; a camera that sees no cluster; a cell whose camera
  and hold sensor fail; a planner that finds no path; an arm that accepts every move
  without moving.
\<close>

definition jammedRobot :: "Pose robot" where
  "jammedRobot = simRobot\<lparr>Open := (\<lambda>w. (Some (External ''gripper jammed''), w))\<rparr>"

definition emptySceneRobot :: "Pose robot" where
  "emptySceneRobot = simRobot\<lparr>RadiusClustering := (\<lambda>segCfg w. (Inr [], w))\<rparr>"

definition dazzledRobot :: "Pose robot" where
  "dazzledRobot =
     simRobot\<lparr>RadiusClustering := (\<lambda>segCfg w. (Inl (External ''no point cloud''), w)),
              IsHoldingSomething := (\<lambda>w. (Inl (External ''timeout''), w))\<rparr>"

definition blockedRobot :: "Pose robot" where
  "blockedRobot = simRobot\<lparr>Move := (\<lambda>component dest w. (Inr False, w))\<rparr>"

definition stuckRobot :: "Pose robot" where
  "stuckRobot = simRobot\<lparr>Move := (\<lambda>component dest w. (Inr True, w))\<rparr>"

text \<open>
  Configurations (the defaults of \<open>Validate\<close>; camera frame, and world frame with a grasp
  depth of 5 mm), services started with the gripper at the world origin, and inputs.
\<close>

definition simConfig :: Config where
  "simConfig =
     \<lparr>Arm = ''arm'', Camera = ''camera'', Gripper = ''gripper'', DetectionFrame = [],
      ApproachOffsetMm = 100, GraspDepthOffsetMm = 0, LiftHeightMm = 50,
      Segmentation =
        \<lparr>MinPtsInPlane = 1500, MaxDistFromPlane = 5, GroundNormal = [0, 0, 1],
         AngleTolerance = 20, MinPtsInSegment = 100, ClusteringRadiusMm = 5,
         MeanKFiltering = 50, MaxDepthMm = 0, MaxPointCount = 0\<rparr>\<rparr>"

definition worldConfig :: Config where
  "worldConfig = simConfig\<lparr>Config.DetectionFrame := ''world'', GraspDepthOffsetMm := 5\<rparr>"

definition originPose :: Pose where
  "originPose = NewPose zeroVector (OrientationVectorDegrees 0 0 0 1)"

definition simService :: "Pose handEyeTest" where
  "simService = NewHandEyeTest simConfig originPose"

definition worldService :: "Pose handEyeTest" where
  "worldService = NewHandEyeTest worldConfig originPose"

definition earlierResult :: gomap where
  "earlierResult = [(''success'', VBool True), (''is_holding'', VBool True)]"

definition cubeObject :: DetectedObject where
  "cubeObject = \<lparr>Center = \<lparr>X = 120, Y = -45, Z = 310\<rparr>, PointCount = 1\<rparr>"

definition nudgedObject :: DetectedObject where
  "nudgedObject = \<lparr>Center = \<lparr>X = 119, Y = -44, Z = 308\<rparr>, PointCount = 1\<rparr>"

definition originObject :: DetectedObject where
  "originObject = \<lparr>Center = zeroVector, PointCount = 1\<rparr>"

definition moveToCommand :: gomap where
  "moveToCommand =
     [(''command'', VStr ''move_to''), (''x'', VNum 413), (''y'', VNum 731),
      (''z'', VNum 45), (''step_size'', VNum 20)]"

section \<open>Auxiliary facts\<close>

lemma detectObjects_session:
  "detectObjects M s = (r, s') \<Longrightarrow>
   cfg s' = cfg s \<and> lastResult s' = lastResult s \<and> lastDetection s' = lastDetection s
   \<and> currentStatus s' = currentStatus s"
  by (auto simp: detectObjects_def radiusClustering_def Let_def
           split: option.splits prod.splits sum.splits if_splits)

lemmas sim_defs = simRobot_def simService_def simConfig_def NewHandEyeTest_def originPose_def
  detectObjects_def radiusClustering_def segCfgOf_def groundNormalVec_def keepCluster_def
  computeCenter_def append_slice_def elems_def len_def zeroVector_def NewPose_def Let_def

lemma sim_detect:
  "detectObjects simRobot (simService\<lparr>lastResult := lr, currentStatus := st\<rparr>)
     = (Inr (Some [cubeObject]),
        simService\<lparr>lastResult := lr, currentStatus := st,
          calls := [CameraRadiusClustering (Inr [[\<lparr>X = 120, Y = -45, Z = 310\<rparr>]])]\<rparr>)"
  by (simp add: sim_defs cubeObject_def)

section \<open>Command dispatch\<close>

text \<open>
  C1. The claim is that a command map whose \<open>command\<close> field is \<open>move_to\<close> is dispatched
  to \<open>handleMoveTo\<close>. The \<open>switch\<close> in \<open>DoCommand\<close> has no \<open>move_to\<close> case: every such
  command map falls to the default branch, returns the unknown-command error and leaves
  the service untouched (no collaborator is called, the status never becomes \<open>moving\<close>).
\<close>

theorem DoCommand_move_to_unknown:
  "map_of cmd ''command'' = Some (VStr ''move_to'') \<Longrightarrow>
   DoCommand M cmd s = (Inl (UnknownCommand ''move_to''), s)"
  by (simp add: DoCommand_def)

theorem DoCommand_move_to_unknown_witness:
  "map_of moveToCommand ''command'' = Some (VStr ''move_to'')
   \<and> DoCommand simRobot moveToCommand simService = (Inl (UnknownCommand ''move_to''), simService)"
  using DoCommand_move_to_unknown [of moveToCommand simRobot simService]
  by (simp add: moveToCommand_def)

section \<open>Index validation\<close>

text \<open>
  C7. When the detection that \<open>pick\<close> runs first returns \<open>n\<close> objects and the requested
  index is at least \<open>n\<close>, \<open>handlePick\<close> returns the out-of-range error, \<open>lastResult\<close> is
  what it was before the call, and no collaborator is called after the detection (the
  pick sequence is not entered); the status is back to \<open>idle\<close>.
\<close>

theorem handlePick_index_out_of_range:
  assumes "detectObjects M (s\<lparr>currentStatus := ''detecting''\<rparr>) = (Inr objects, s1)"
      and "objectIndex \<ge> int (len objects)"
  shows "fst (handlePick M objectIndex s) = Inl (ObjectIndexOutOfRange objectIndex (len objects))
         \<and> lastResult (snd (handlePick M objectIndex s)) = lastResult s
         \<and> calls (snd (handlePick M objectIndex s)) = calls s1
         \<and> currentStatus (snd (handlePick M objectIndex s)) = ''idle''"
  using assms detectObjects_session [OF assms(1)]
  by (simp add: handlePick_def Let_def)

theorem handlePick_index_out_of_range_witness:
  "detectObjects simRobot
     (simService\<lparr>lastResult := Some earlierResult, currentStatus := ''detecting''\<rparr>)
     = (Inr (Some [cubeObject]),
        simService\<lparr>lastResult := Some earlierResult, currentStatus := ''detecting'',
          calls := [CameraRadiusClustering (Inr [[\<lparr>X = 120, Y = -45, Z = 310\<rparr>]])]\<rparr>)
   \<and> (1::int) \<ge> int (len (Some [cubeObject]))
   \<and> fst (handlePick simRobot 1 (simService\<lparr>lastResult := Some earlierResult\<rparr>))
       = Inl (ObjectIndexOutOfRange 1 1)
   \<and> lastResult (snd (handlePick simRobot 1 (simService\<lparr>lastResult := Some earlierResult\<rparr>)))
       = Some earlierResult"
proof -
  have d: "detectObjects simRobot
             (simService\<lparr>lastResult := Some earlierResult, currentStatus := ''detecting''\<rparr>)
     = (Inr (Some [cubeObject]),
        simService\<lparr>lastResult := Some earlierResult, currentStatus := ''detecting'',
          calls := [CameraRadiusClustering (Inr [[\<lparr>X = 120, Y = -45, Z = 310\<rparr>]])]\<rparr>)"
    by (rule sim_detect)
  have l: "(1::int) \<ge> int (len (Some [cubeObject]))" by (simp add: len_def)
  show ?thesis
    using handlePick_index_out_of_range [OF d l] d l by (simp add: len_def)
qed

text \<open>
  C8. \<open>pick\<close> and \<open>pick_detected\<close> compare the index only with the length. With a
  non-empty detection and a negative index the comparison passes, the slice access
  \<open>objects[objectIndex]\<close> is out of bounds, and the handler ends in the runtime panic, not
  in the out-of-range error; \<open>executePick\<close> is not reached.
\<close>

theorem negative_index_panics:
  "(detectObjects M (s\<lparr>currentStatus := ''detecting''\<rparr>) = (Inr objects, s1)
      \<and> len objects > 0 \<and> objectIndex < 0
    \<longrightarrow> handlePick M objectIndex s
          = (Inl (IndexPanic objectIndex (len objects)), s1\<lparr>lastDetection := objects\<rparr>))
   \<and> (lastDetection s = objects \<and> len objects > 0 \<and> objectIndex < 0
    \<longrightarrow> handlePickDetected M objectIndex s = (Inl (IndexPanic objectIndex (len objects)), s))"
  by (auto simp: handlePick_def handlePickDetected_def index_def Let_def len_def split: option.splits)

theorem negative_index_panics_witness:
  "(detectObjects simRobot (simService\<lparr>currentStatus := ''detecting''\<rparr>)
      = (Inr (Some [cubeObject]),
         simService\<lparr>currentStatus := ''detecting'',
           calls := [CameraRadiusClustering (Inr [[\<lparr>X = 120, Y = -45, Z = 310\<rparr>]])]\<rparr>)
      \<and> len (Some [cubeObject]) > 0 \<and> (-1::int) < 0)
   \<and> fst (handlePick simRobot (-1) simService) = Inl (IndexPanic (-1) 1)
   \<and> (lastDetection (simService\<lparr>lastDetection := Some [cubeObject]\<rparr>) = Some [cubeObject])
   \<and> fst (handlePickDetected simRobot (-1) (simService\<lparr>lastDetection := Some [cubeObject]\<rparr>))
       = Inl (IndexPanic (-1) 1)"
proof -
  have d: "detectObjects simRobot (simService\<lparr>currentStatus := ''detecting''\<rparr>)
      = (Inr (Some [cubeObject]),
         simService\<lparr>currentStatus := ''detecting'',
           calls := [CameraRadiusClustering (Inr [[\<lparr>X = 120, Y = -45, Z = 310\<rparr>]])]\<rparr>)"
    using sim_detect [where lr = None and st = "''detecting''"] by (simp add: simService_def NewHandEyeTest_def)
  show ?thesis
    using negative_index_panics [of simRobot simService "Some [cubeObject]" _ "-1"]
          negative_index_panics [of simRobot "simService\<lparr>lastDetection := Some [cubeObject]\<rparr>"
             "Some [cubeObject]" _ "-1"] d
    by (simp add: len_def)
qed

section \<open>Session state after a pick or a detection\<close>

lemma jammed_pick:
  "executePick jammedRobot obj s
     = (Inl (FailedOpenGripper (External ''gripper jammed'')),
        s\<lparr>currentStatus := ''picking'',
          calls := calls s @ [GripperOpen (Some (External ''gripper jammed''))]\<rparr>)"
  by (simp add: executePick_def stepOpenGripper_def gripperOpen_def jammedRobot_def simRobot_def Let_def)

text \<open>
  C9. When \<open>executePick\<close> fails fatally it returns no result, and \<open>handlePick\<close> and
  \<open>handlePickDetected\<close> store that absent result in \<open>lastResult\<close>: whatever an earlier
  pick had recorded is gone, and \<open>status\<close> no longer has a \<open>last_result\<close> field.
\<close>

theorem fatal_pick_erases_lastResult:
  "(detectObjects M (s\<lparr>currentStatus := ''detecting''\<rparr>) = (Inr objects, s1)
      \<and> index objects objectIndex = Inr obj
      \<and> executePick M obj (s1\<lparr>lastDetection := objects\<rparr>) = (Inl e, s3)
    \<longrightarrow> handlePick M objectIndex s = (Inl e, s3\<lparr>currentStatus := ''idle'', lastResult := None\<rparr>)
        \<and> statusField (snd (handlePick M objectIndex s)) ''last_result'' = None)
   \<and> (index (lastDetection s) objectIndex = Inr obj
      \<and> executePick M obj s = (Inl e, s3)
    \<longrightarrow> handlePickDetected M objectIndex s
          = (Inl e, s3\<lparr>currentStatus := ''idle'', lastResult := None\<rparr>)
        \<and> statusField (snd (handlePickDetected M objectIndex s)) ''last_result'' = None)"
  by (auto simp: handlePick_def handlePickDetected_def index_def Let_def len_def recordResult_def
        statusField_def handleStatus_def split: option.splits if_splits)

theorem fatal_pick_erases_lastResult_witness:
  "index (lastDetection (simService\<lparr>lastDetection := Some [cubeObject], lastResult := Some earlierResult\<rparr>)) 0
     = Inr cubeObject
   \<and> fst (executePick jammedRobot cubeObject
        (simService\<lparr>lastDetection := Some [cubeObject], lastResult := Some earlierResult\<rparr>))
     = Inl (FailedOpenGripper (External ''gripper jammed''))
   \<and> statusField (simService\<lparr>lastDetection := Some [cubeObject], lastResult := Some earlierResult\<rparr>)
        ''last_result'' = Some (VMap earlierResult)
   \<and> statusField (snd (handlePickDetected jammedRobot 0
        (simService\<lparr>lastDetection := Some [cubeObject], lastResult := Some earlierResult\<rparr>)))
        ''last_result'' = None"
  using fatal_pick_erases_lastResult [of jammedRobot
     "simService\<lparr>lastDetection := Some [cubeObject], lastResult := Some earlierResult\<rparr>"
     "Some [cubeObject]"
     "simService\<lparr>lastDetection := Some [cubeObject], lastResult := Some earlierResult\<rparr>"
     0 cubeObject "FailedOpenGripper (External ''gripper jammed'')"
     "simService\<lparr>lastDetection := Some [cubeObject], lastResult := Some earlierResult,
                 currentStatus := ''picking'',
                 calls := [GripperOpen (Some (External ''gripper jammed''))]\<rparr>"]
  by (simp add: jammed_pick index_def len_def elems_def statusField_def handleStatus_def
        simService_def NewHandEyeTest_def)

lemma foldl_keepCluster_nil_or_nonempty:
  "acc = None \<or> (\<exists>x xs. acc = Some (x # xs)) \<Longrightarrow>
   foldl (keepCluster c) acc objects = None
   \<or> (\<exists>x xs. foldl (keepCluster c) acc objects = Some (x # xs))"
proof (induction objects arbitrary: acc)
  case Nil
  then show ?case by simp
next
  case (Cons obj objects)
  have "keepCluster c acc obj = None \<or> (\<exists>x xs. keepCluster c acc obj = Some (x # xs))"
    using Cons.prems
    by (auto simp: keepCluster_def Let_def append_slice_def elems_def)
  from Cons.IH [OF this] show ?case by simp
qed

lemma detectObjects_empty_is_nil:
  assumes "detectObjects M s = (Inr objects, s')" and "len objects = 0"
  shows "objects = None"
proof -
  have "objects = None \<or> (\<exists>x xs. objects = Some (x # xs))"
    using assms(1) foldl_keepCluster_nil_or_nonempty [of None "cfg s"]
    by (auto simp: detectObjects_def Let_def split: option.splits prod.splits sum.splits if_splits)
  with assms(2) show ?thesis by (auto simp: len_def)
qed

text \<open>
  C10. A detection that succeeds with no surviving cluster returns the nil slice, so
  \<open>detect\<close> answers with an empty list and count zero but stores nil in
  \<open>lastDetection\<close>: a following \<open>pick_detected\<close> fails with the no-previous-detection
  error and \<open>status\<close> has no \<open>detected_objects\<close> field, exactly as in a freshly
  constructed service.
\<close>

theorem empty_detection_is_nil:
  assumes "detectObjects M (s\<lparr>currentStatus := ''detecting''\<rparr>) = (Inr objects, s1)"
      and "len objects = 0"
  shows "fst (handleDetect M s) = Inr [(''objects'', VList []), (''count'', VInt 0)]
         \<and> lastDetection (snd (handleDetect M s)) = None
         \<and> handlePickDetected M objectIndex (snd (handleDetect M s))
             = (Inl NoPreviousDetection, snd (handleDetect M s))
         \<and> statusField (snd (handleDetect M s)) ''detected_objects'' = None
         \<and> statusField (NewHandEyeTest c w) ''detected_objects'' = None"
  using assms detectObjects_empty_is_nil [OF assms]
  by (simp add: handleDetect_def handlePickDetected_def statusField_def handleStatus_def
        NewHandEyeTest_def len_def elems_def Let_def split: option.splits)

theorem empty_detection_is_nil_witness:
  "detectObjects emptySceneRobot (simService\<lparr>currentStatus := ''detecting''\<rparr>)
     = (Inr None, simService\<lparr>currentStatus := ''detecting'', calls := [CameraRadiusClustering (Inr [])]\<rparr>)
   \<and> len (None :: DetectedObject slice) = 0
   \<and> fst (handleDetect emptySceneRobot simService) = Inr [(''objects'', VList []), (''count'', VInt 0)]
   \<and> fst (handlePickDetected emptySceneRobot 0 (snd (handleDetect emptySceneRobot simService)))
       = Inl NoPreviousDetection
   \<and> statusField (snd (handleDetect emptySceneRobot simService)) ''detected_objects'' = None"
proof -
  have d: "detectObjects emptySceneRobot (simService\<lparr>currentStatus := ''detecting''\<rparr>)
     = (Inr None, simService\<lparr>currentStatus := ''detecting'', calls := [CameraRadiusClustering (Inr [])]\<rparr>)"
    by (simp add: emptySceneRobot_def sim_defs)
  have l: "len (None :: DetectedObject slice) = 0" by (simp add: len_def)
  show ?thesis
    using empty_detection_is_nil [OF d l, of 0 simConfig originPose] d l by simp
qed

section \<open>The pick sequence\<close>

lemmas call_defs = gripperOpen_def gripperGrab_def gripperIsHoldingSomething_def
  armEndPosition_def armMoveToPosition_def motionGetPose_def motionMove_def radiusClustering_def

lemmas step_defs = stepOpenGripper_def stepApproach_def stepReDetect_def stepGraspPosition_def
  stepWorldFrame_def stepGrab_def stepLift_def stepVerify_def

lemmas pick_defs = executePick_def pickAfterApproach_def pickAfterGrasp_def newPickResult_def
  completed_def

lemmas run_defs = pick_defs step_defs gripperOpen_def gripperGrab_def gripperIsHoldingSomething_def
  armEndPosition_def armMoveToPosition_def motionGetPose_def motionMove_def sim_defs
  NewPoseInFrame_def NewPoseFromPoint_def

lemma stepOpenGripper_Inr:
  "stepOpenGripper M r s = (Inr r', s') \<Longrightarrow>
   r' = completed r ''open_gripper'' \<and> calls s' = calls s @ [GripperOpen None]"
  by (auto simp: stepOpenGripper_def gripperOpen_def split: prod.splits option.splits)

lemma stepApproach_Inr:
  "stepApproach M obj frame w r s = (Inr r', s') \<Longrightarrow>
   r' = completed r ''approach''
   \<and> (\<exists>cs dest. calls s' = calls s @ cs @ [MotionMove (Gripper (cfg s)) dest (Inr True)])"
  by (auto simp: stepApproach_def motionMove_def motionGetPose_def Let_def
           split: prod.splits sum.splits if_splits)

lemma stepReDetect_completed:
  "StepsCompleted (fst (stepReDetect M obj r s)) = StepsCompleted r @ [''re_detect'']"
  by (auto simp: stepReDetect_def completed_def Let_def split: prod.splits sum.splits)

lemma stepGraspPosition_Inr:
  "stepGraspPosition M r s = (Inr r', s') \<Longrightarrow>
   r' = completed r ''grasp_position''
   \<and> (\<exists>currentPose graspPose.
         calls s' = calls s @ [ArmEndPosition (Inr currentPose), ArmMoveToPosition graspPose None])"
  by (auto simp: stepGraspPosition_def armEndPosition_def armMoveToPosition_def Let_def
           split: prod.splits sum.splits option.splits)

lemma stepWorldFrame_frame:
  "stepWorldFrame M obj w r s = (r', s') \<Longrightarrow>
   StepsCompleted r' = StepsCompleted r \<and> IsHolding r' = IsHolding r
   \<and> ApproachOffsetMm r' = ApproachOffsetMm r"
  by (auto simp: stepWorldFrame_def motionGetPose_def Let_def
           split: prod.splits sum.splits if_splits)

lemma stepGrab_Inr:
  "stepGrab M r s = (Inr r', s') \<Longrightarrow>
   r' = completed r ''grab'' \<and> (\<exists>grabbed. calls s' = calls s @ [GripperGrab (Inr grabbed)])"
  by (auto simp: stepGrab_def gripperGrab_def split: prod.splits sum.splits)

lemma stepLift_result: "fst (stepLift M r s) = completed r ''lift''"
  by (auto simp: stepLift_def Let_def split: prod.splits sum.splits)

lemma stepVerify_result:
  "stepVerify M r s = (r', s') \<Longrightarrow>
   \<exists>h. calls s' = calls s @ [GripperIsHoldingSomething h]
       \<and> r' = completed (case h of Inl e \<Rightarrow> r | Inr holding \<Rightarrow> r\<lparr>IsHolding := holding\<rparr>) ''verify''"
proof -
  assume a: "stepVerify M r s = (r', s')"
  obtain h w where h: "IsHoldingSomething M (world s) = (h, w)"
    by (cases "IsHoldingSomething M (world s)")
  with a have "calls s' = calls s @ [GripperIsHoldingSomething h]
       \<and> r' = completed (case h of Inl e \<Rightarrow> r | Inr holding \<Rightarrow> r\<lparr>IsHolding := holding\<rparr>) ''verify''"
    by (cases h) (auto simp: stepVerify_def gripperIsHoldingSomething_def)
  then show ?thesis by blast
qed

lemma pickAfterGrasp_Inr:
  assumes "pickAfterGrasp M obj w r s = (Inr m, s')"
      and w6: "stepWorldFrame M obj w r s = (r6, s6)"
  shows "\<exists>h. last (calls s') = GripperIsHoldingSomething h
         \<and> m = toMap
              ((completed
                 (case h of
                    Inl e \<Rightarrow> completed (completed r6 ''grab'') ''lift''
                  | Inr holding \<Rightarrow>
                      (completed (completed r6 ''grab'') ''lift'')
                        \<lparr>IsHolding := holding\<rparr>)
                 ''verify'')
               \<lparr>Success := (case h of Inl e \<Rightarrow> IsHolding r6
                             | Inr holding \<Rightarrow> holding)\<rparr>)"
proof -
  obtain g7 s7 where g: "stepGrab M r6 s6 = (g7, s7)" by (cases "stepGrab M r6 s6")
  from assms(1) w6 g obtain r7 where r7: "g7 = Inr r7"
    by (cases g7) (auto simp: pickAfterGrasp_def)
  obtain r8 s8 where l8: "stepLift M r7 s7 = (r8, s8)" by (cases "stepLift M r7 s7")
  obtain r9 s9 where v9: "stepVerify M r8 s8 = (r9, s9)" by (cases "stepVerify M r8 s8")
  from assms(1) w6 g r7 l8 v9 have m: "m = toMap (r9\<lparr>Success := IsHolding r9\<rparr>)" and s9: "s' = s9"
    by (auto simp: pickAfterGrasp_def)
  from stepGrab_Inr g r7 have r7': "r7 = completed r6 ''grab''" by blast
  from stepLift_result [of M r7 s7] l8 have r8': "r8 = completed r7 ''lift''" by simp
  from stepVerify_result [OF v9] obtain h where
    h: "calls s9 = calls s8 @ [GripperIsHoldingSomething h]"
       "r9 = completed (case h of Inl e \<Rightarrow> r8 | Inr holding \<Rightarrow> r8\<lparr>IsHolding := holding\<rparr>) ''verify''"
    by blast
  have "last (calls s') = GripperIsHoldingSomething h" using h(1) s9 by simp
  moreover have "m = toMap
              ((completed
                 (case h of
                    Inl e \<Rightarrow> completed (completed r6 ''grab'') ''lift''
                  | Inr holding \<Rightarrow>
                      (completed (completed r6 ''grab'') ''lift'')
                        \<lparr>IsHolding := holding\<rparr>)
                 ''verify'')
               \<lparr>Success := (case h of Inl e \<Rightarrow> IsHolding r6
                             | Inr holding \<Rightarrow> holding)\<rparr>)"
    using m h(2) r7' r8' w6 by (cases h) (simp_all add: completed_def)
  ultimately show ?thesis by blast
qed

lemma pickAfterApproach_Inr:
  assumes "pickAfterApproach M obj w r s = (Inr m, s')"
  shows "\<exists>r4 s4 s5. stepReDetect M obj r s = (r4, s4)
           \<and> pickAfterGrasp M obj w (completed r4 ''grasp_position'') s5 = (Inr m, s')"
proof -
  obtain r4 s4 where d: "stepReDetect M obj r s = (r4, s4)" by (cases "stepReDetect M obj r s")
  obtain g5 s5 where g: "stepGraspPosition M r4 s4 = (g5, s5)" by (cases "stepGraspPosition M r4 s4")
  from assms d g obtain r5 where r5: "g5 = Inr r5"
    by (cases g5) (auto simp: pickAfterApproach_def)
  from stepGraspPosition_Inr g r5 have "r5 = completed r4 ''grasp_position''" by blast
  with assms d g r5 show ?thesis by (auto simp: pickAfterApproach_def)
qed

lemma executePick_Inr:
  assumes "executePick M obj s = (Inr m, s')"
  shows "\<exists>frame s3. pickAfterApproach M obj (frame = ''world'')
            (completed (completed (newPickResult obj frame) ''open_gripper'') ''approach'') s3
          = (Inr m, s')"
proof -
  define s0 where "s0 = s\<lparr>currentStatus := ''picking''\<rparr>"
  define frame where "frame = (if Config.DetectionFrame (cfg s0) = [] then Camera (cfg s0)
             else Config.DetectionFrame (cfg s0))"
  have eq: "executePick M obj s =
      (case stepOpenGripper M (newPickResult obj frame) s0 of
           (Inl e, s1) \<Rightarrow> (Inl e, s1)
         | (Inr r1, s1) \<Rightarrow>
             (case stepApproach M obj frame (frame = ''world'') r1 s1 of
                (Inl e, s3) \<Rightarrow> (Inl e, s3)
              | (Inr r3, s3) \<Rightarrow> pickAfterApproach M obj (frame = ''world'') r3 s3))"
    by (simp only: executePick_def Let_def frame_def s0_def)
  obtain o1 s1 where o: "stepOpenGripper M (newPickResult obj frame) s0 = (o1, s1)"
    by (cases "stepOpenGripper M (newPickResult obj frame) s0")
  from assms o eq obtain r1 where r1: "o1 = Inr r1"
    by (cases o1) auto
  obtain a3 s3 where a: "stepApproach M obj frame (frame = ''world'') r1 s1 = (a3, s3)"
    by (cases "stepApproach M obj frame (frame = ''world'') r1 s1")
  from assms o r1 a eq obtain r3 where r3: "a3 = Inr r3"
    by (cases a3) auto
  from stepOpenGripper_Inr o r1 have r1': "r1 = completed (newPickResult obj frame) ''open_gripper''"
    by blast
  from stepApproach_Inr a r3 have r3': "r3 = completed r1 ''approach''" by blast
  from assms o r1 a r3 eq have "pickAfterApproach M obj (frame = ''world'') r3 s3 = (Inr m, s')"
    by simp
  with r1' r3' show ?thesis by blast
qed

lemma fatal_step_Inl:
  "stepOpenGripper M r s = (Inl e, s') \<Longrightarrow> failed (last (calls s'))"
  "stepApproach M obj frame w r s = (Inl e, s') \<Longrightarrow> failed (last (calls s'))"
  "stepGraspPosition M r s = (Inl e, s') \<Longrightarrow> failed (last (calls s'))"
  "stepGrab M r s = (Inl e, s') \<Longrightarrow> failed (last (calls s'))"
  by (auto simp: step_defs gripperOpen_def gripperGrab_def armEndPosition_def
                 armMoveToPosition_def motionGetPose_def motionMove_def Let_def
           split: prod.splits option.splits sum.splits if_splits)

lemma pickAfterGrasp_Inl:
  assumes "pickAfterGrasp M obj w r s = (Inl e, s')"
  shows "failed (last (calls s'))"
proof -
  obtain r6 s6 where w6: "stepWorldFrame M obj w r s = (r6, s6)"
    by (cases "stepWorldFrame M obj w r s")
  obtain g7 s7 where g: "stepGrab M r6 s6 = (g7, s7)" by (cases "stepGrab M r6 s6")
  from assms w6 g have "g7 = Inl e \<and> s7 = s'"
    by (cases g7) (auto simp: pickAfterGrasp_def split: prod.splits)
  with g fatal_step_Inl(4) show ?thesis by blast
qed

lemma pickAfterApproach_Inl:
  assumes "pickAfterApproach M obj w r s = (Inl e, s')"
  shows "failed (last (calls s'))"
proof -
  obtain r4 s4 where d: "stepReDetect M obj r s = (r4, s4)" by (cases "stepReDetect M obj r s")
  obtain g5 s5 where g: "stepGraspPosition M r4 s4 = (g5, s5)"
    by (cases "stepGraspPosition M r4 s4")
  show ?thesis
  proof (cases g5)
    case (Inl e')
    with assms d g have "e' = e \<and> s5 = s'" by (simp add: pickAfterApproach_def)
    with g Inl fatal_step_Inl(3) show ?thesis by blast
  next
    case (Inr r5)
    with assms d g have "pickAfterGrasp M obj w r5 s5 = (Inl e, s')"
      by (simp add: pickAfterApproach_def)
    then show ?thesis by (rule pickAfterGrasp_Inl)
  qed
qed

lemma executePick_Inl:
  assumes "executePick M obj s = (Inl e, s')"
  shows "failed (last (calls s'))"
proof -
  define s0 where "s0 = s\<lparr>currentStatus := ''picking''\<rparr>"
  define frame where "frame = (if Config.DetectionFrame (cfg s0) = [] then Camera (cfg s0)
             else Config.DetectionFrame (cfg s0))"
  have eq: "executePick M obj s =
      (case stepOpenGripper M (newPickResult obj frame) s0 of
           (Inl e, s1) \<Rightarrow> (Inl e, s1)
         | (Inr r1, s1) \<Rightarrow>
             (case stepApproach M obj frame (frame = ''world'') r1 s1 of
                (Inl e, s3) \<Rightarrow> (Inl e, s3)
              | (Inr r3, s3) \<Rightarrow> pickAfterApproach M obj (frame = ''world'') r3 s3))"
    by (simp only: executePick_def Let_def frame_def s0_def)
  obtain o1 s1 where o: "stepOpenGripper M (newPickResult obj frame) s0 = (o1, s1)"
    by (cases "stepOpenGripper M (newPickResult obj frame) s0")
  show ?thesis
  proof (cases o1)
    case (Inl e')
    with assms eq o have "e' = e \<and> s1 = s'" by simp
    with o Inl fatal_step_Inl(1) show ?thesis by blast
  next
    case (Inr r1)
    obtain a3 s3 where a: "stepApproach M obj frame (frame = ''world'') r1 s1 = (a3, s3)"
      by (cases "stepApproach M obj frame (frame = ''world'') r1 s1")
    show ?thesis
    proof (cases a3)
      case (Inl e')
      with assms eq o Inr a have "e' = e \<and> s3 = s'" by simp
      with a Inl fatal_step_Inl(2) show ?thesis by blast
    next
      case r3: (Inr r3)
      with assms eq o Inr a have "pickAfterApproach M obj (frame = ''world'') r3 s3 = (Inl e, s')"
        by simp
      then show ?thesis by (rule pickAfterApproach_Inl)
    qed
  qed
qed

lemma world_pick_run:
  "\<exists>m s'. executePick simRobot originObject worldService = (Inr m, s')
         \<and> last (calls s') = GripperIsHoldingSomething (Inr True)"
  by (simp add: run_defs worldService_def worldConfig_def originObject_def)

text \<open>
  C2. In a pick that returns a result and whose final hold check answered true, the result
  has \<open>success = true\<close>, \<open>is_holding = true\<close> and \<open>steps_completed\<close> is the full list of
  step names in the order of the sequence. A pick returns a result exactly when no fatal
  step failed: by \<open>executePick_Inl\<close> it returns an error only right after a failed call.
  The code records seven names, not nine: computing the approach pose and the world-frame
  comparison append nothing.
\<close>

theorem pick_success_result:
  assumes "executePick M obj s = (Inr m, s')"
      and "last (calls s') = GripperIsHoldingSomething (Inr True)"
  shows "map_of m ''success'' = Some (VBool True)
         \<and> map_of m ''is_holding'' = Some (VBool True)
         \<and> map_of m ''steps_completed'' = Some (VList (map VStr stepNames))"
proof -
  from executePick_Inr [OF assms(1)] obtain frame s3 where
    a: "pickAfterApproach M obj (frame = ''world'')
          (completed (completed (newPickResult obj frame) ''open_gripper'') ''approach'') s3
        = (Inr m, s')" by blast
  from pickAfterApproach_Inr [OF a] obtain r4 s4 s5 where
    d: "stepReDetect M obj (completed (completed (newPickResult obj frame) ''open_gripper'') ''approach'') s3 = (r4, s4)"
    and g: "pickAfterGrasp M obj (frame = ''world'') (completed r4 ''grasp_position'') s5 = (Inr m, s')"
    by blast
  from stepReDetect_completed [of M obj "completed (completed (newPickResult obj frame) ''open_gripper'') ''approach''" s3] d
  have r4: "StepsCompleted r4 = [''open_gripper'', ''approach'', ''re_detect'']"
    by (simp add: completed_def newPickResult_def)
  obtain r6 s6 where
    w: "stepWorldFrame M obj (frame = ''world'') (completed r4 ''grasp_position'') s5 = (r6, s6)"
    by (cases "stepWorldFrame M obj (frame = ''world'') (completed r4 ''grasp_position'') s5")
  from stepWorldFrame_frame [OF w] r4
  have r6: "StepsCompleted r6 = [''open_gripper'', ''approach'', ''re_detect'', ''grasp_position'']"
    by (simp add: completed_def)
  from pickAfterGrasp_Inr [OF g w] obtain h where
    h: "last (calls s') = GripperIsHoldingSomething h"
    and m: "m = toMap
              ((completed
                 (case h of
                    Inl e \<Rightarrow> completed (completed r6 ''grab'') ''lift''
                  | Inr holding \<Rightarrow> (completed (completed r6 ''grab'') ''lift'')\<lparr>IsHolding := holding\<rparr>)
                 ''verify'')
               \<lparr>Success := (case h of Inl e \<Rightarrow> IsHolding r6 | Inr holding \<Rightarrow> holding)\<rparr>)"
    by blast
  from h assms(2) have "h = Inr True" by simp
  with r6 m show ?thesis
    by (simp add: toMap_def completed_def stepNames_def)
qed

theorem pick_success_result_witness:
  "\<not> isl (fst (executePick simRobot originObject worldService))
   \<and> last (calls (snd (executePick simRobot originObject worldService)))
       = GripperIsHoldingSomething (Inr True)
   \<and> resultField (fst (executePick simRobot originObject worldService)) ''success''
       = Some (VBool True)
   \<and> resultField (fst (executePick simRobot originObject worldService)) ''is_holding''
       = Some (VBool True)
   \<and> resultField (fst (executePick simRobot originObject worldService)) ''steps_completed''
       = Some (VList (map VStr stepNames))"
proof -
  from world_pick_run obtain m s' where
    e: "executePick simRobot originObject worldService = (Inr m, s')"
    and l: "last (calls s') = GripperIsHoldingSomething (Inr True)" by blast
  from pick_success_result [OF e l] e l show ?thesis by (simp add: resultField_def)
qed

theorem pick_nine_names_counterexample:
  "\<not> isl (fst (executePick simRobot cubeObject simService))
   \<and> last (calls (snd (executePick simRobot cubeObject simService)))
       = GripperIsHoldingSomething (Inr True)
   \<and> resultField (fst (executePick simRobot cubeObject simService)) ''steps_completed''
       = Some (VList [VStr ''open_gripper'', VStr ''approach'', VStr ''re_detect'',
                      VStr ''grasp_position'', VStr ''grab'', VStr ''lift'', VStr ''verify''])
   \<and> length [VStr ''open_gripper'', VStr ''approach'', VStr ''re_detect'',
              VStr ''grasp_position'', VStr ''grab'', VStr ''lift'', VStr ''verify''] \<noteq> 9"
  by (simp add: run_defs cubeObject_def resultField_def toMap_def)

text \<open>
  C3. A fatal step (\<open>open_gripper\<close>, \<open>approach\<close>, \<open>grasp_position\<close>, \<open>grab\<close>) either
  aborts with an error right after a failed call, or appends its name after calls that
  succeeded. The advisory steps \<open>re_detect\<close>, \<open>lift\<close> and \<open>verify\<close> append their names in
  every case, whether their calls succeed or not; the world-frame comparison appends nothing.
\<close>

theorem steps_completed_policy:
  "(case stepOpenGripper M r s of
      (Inl e, s') \<Rightarrow> failed (last (calls s'))
    | (Inr r', s') \<Rightarrow> \<not> failed (last (calls s'))
                      \<and> StepsCompleted r' = StepsCompleted r @ [''open_gripper''])
   \<and> (case stepApproach M obj frame w r s of
      (Inl e, s') \<Rightarrow> failed (last (calls s'))
    | (Inr r', s') \<Rightarrow> \<not> failed (last (calls s'))
                      \<and> StepsCompleted r' = StepsCompleted r @ [''approach''])
   \<and> (case stepGraspPosition M r s of
      (Inl e, s') \<Rightarrow> failed (last (calls s'))
    | (Inr r', s') \<Rightarrow> list_all (\<lambda>c. \<not> failed c) (newCalls s s')
                      \<and> StepsCompleted r' = StepsCompleted r @ [''grasp_position''])
   \<and> (case stepGrab M r s of
      (Inl e, s') \<Rightarrow> failed (last (calls s'))
    | (Inr r', s') \<Rightarrow> \<not> failed (last (calls s'))
                      \<and> StepsCompleted r' = StepsCompleted r @ [''grab''])
   \<and> StepsCompleted (fst (stepReDetect M obj r s)) = StepsCompleted r @ [''re_detect'']
   \<and> StepsCompleted (fst (stepWorldFrame M obj w r s)) = StepsCompleted r
   \<and> StepsCompleted (fst (stepLift M r s)) = StepsCompleted r @ [''lift'']
   \<and> StepsCompleted (fst (stepVerify M r s)) = StepsCompleted r @ [''verify'']"
proof (intro conjI)
  show "case stepOpenGripper M r s of
      (Inl e, s') \<Rightarrow> failed (last (calls s'))
    | (Inr r', s') \<Rightarrow> \<not> failed (last (calls s'))
                      \<and> StepsCompleted r' = StepsCompleted r @ [''open_gripper'']"
    by (auto simp: stepOpenGripper_def gripperOpen_def completed_def
             split: prod.splits option.splits sum.splits)
  show "case stepApproach M obj frame w r s of
      (Inl e, s') \<Rightarrow> failed (last (calls s'))
    | (Inr r', s') \<Rightarrow> \<not> failed (last (calls s'))
                      \<and> StepsCompleted r' = StepsCompleted r @ [''approach'']"
    by (auto simp: stepApproach_def motionMove_def motionGetPose_def completed_def Let_def
             split: prod.splits sum.splits if_splits)
  show "case stepGraspPosition M r s of
      (Inl e, s') \<Rightarrow> failed (last (calls s'))
    | (Inr r', s') \<Rightarrow> list_all (\<lambda>c. \<not> failed c) (newCalls s s')
                      \<and> StepsCompleted r' = StepsCompleted r @ [''grasp_position'']"
    by (auto simp: stepGraspPosition_def armEndPosition_def armMoveToPosition_def completed_def
                   Let_def newCalls_def
             split: prod.splits sum.splits option.splits)
  show "case stepGrab M r s of
      (Inl e, s') \<Rightarrow> failed (last (calls s'))
    | (Inr r', s') \<Rightarrow> \<not> failed (last (calls s'))
                      \<and> StepsCompleted r' = StepsCompleted r @ [''grab'']"
    by (auto simp: stepGrab_def gripperGrab_def completed_def split: prod.splits sum.splits)
  show "StepsCompleted (fst (stepReDetect M obj r s)) = StepsCompleted r @ [''re_detect'']"
    by (rule stepReDetect_completed)
  show "StepsCompleted (fst (stepWorldFrame M obj w r s)) = StepsCompleted r"
    using stepWorldFrame_frame [of M obj w r s] by (cases "stepWorldFrame M obj w r s") simp
  show "StepsCompleted (fst (stepLift M r s)) = StepsCompleted r @ [''lift'']"
    by (simp add: stepLift_result completed_def)
  show "StepsCompleted (fst (stepVerify M r s)) = StepsCompleted r @ [''verify'']"
    by (auto simp: stepVerify_def gripperIsHoldingSomething_def completed_def
             split: prod.splits sum.splits)
qed

theorem steps_completed_policy_witness:
  "fst (stepOpenGripper jammedRobot (newPickResult cubeObject ''camera'') simService)
     = Inl (FailedOpenGripper (External ''gripper jammed''))
   \<and> failed (last (calls (snd (stepOpenGripper jammedRobot (newPickResult cubeObject ''camera'')
                                  simService))))
   \<and> fst (stepGrab simRobot (newPickResult cubeObject ''camera'') simService)
       = Inr (completed (newPickResult cubeObject ''camera'') ''grab'')
   \<and> \<not> failed (last (calls (snd (stepGrab simRobot (newPickResult cubeObject ''camera'')
                                   simService))))
   \<and> StepsCompleted (fst (stepLift simRobot (newPickResult cubeObject ''camera'') simService))
       = [''lift'']"
proof -
  have o: "stepOpenGripper jammedRobot (newPickResult cubeObject ''camera'') simService
        = (Inl (FailedOpenGripper (External ''gripper jammed'')),
           simService\<lparr>calls := [GripperOpen (Some (External ''gripper jammed''))]\<rparr>)"
    by (simp add: stepOpenGripper_def gripperOpen_def jammedRobot_def sim_defs)
  have g: "stepGrab simRobot (newPickResult cubeObject ''camera'') simService
        = (Inr (completed (newPickResult cubeObject ''camera'') ''grab''),
           simService\<lparr>calls := [GripperGrab (Inr True)]\<rparr>)"
    by (simp add: stepGrab_def gripperGrab_def sim_defs)
  note P = steps_completed_policy [where M = jammedRobot
         and r = "newPickResult cubeObject ''camera''" and s = simService
         and obj = cubeObject and frame = "''camera''" and w = False]
  note Q = steps_completed_policy [where M = simRobot
         and r = "newPickResult cubeObject ''camera''" and s = simService
         and obj = cubeObject and frame = "''camera''" and w = False]
  from P [THEN conjunct1]
  have 1: "failed (last (calls (snd (stepOpenGripper jammedRobot
                                       (newPickResult cubeObject ''camera'') simService))))"
    unfolding o by simp
  from Q [THEN conjunct2, THEN conjunct2, THEN conjunct2, THEN conjunct1]
  have 2: "\<not> failed (last (calls (snd (stepGrab simRobot
                                       (newPickResult cubeObject ''camera'') simService))))"
    unfolding g by simp
  from Q have 3: "StepsCompleted (fst (stepLift simRobot (newPickResult cubeObject ''camera'')
                                        simService))
                  = StepsCompleted (newPickResult cubeObject ''camera'') @ [''lift'']"
    by blast
  from 3 have 4: "StepsCompleted (fst (stepLift simRobot (newPickResult cubeObject ''camera'')
                                        simService)) = [''lift'']"
    by (simp add: newPickResult_def)
  from 1 2 4 show ?thesis by (simp add: o g)
qed

theorem advisory_steps_counterexample:
  "fst (detectObjects dazzledRobot simService) = Inl (SegmentationFailed (External ''no point cloud''))
   \<and> StepsCompleted (fst (stepReDetect dazzledRobot cubeObject (newPickResult cubeObject ''camera'')
                             simService)) = [''re_detect'']
   \<and> fst (gripperIsHoldingSomething dazzledRobot simService) = Inl (External ''timeout'')
   \<and> StepsCompleted (fst (stepVerify dazzledRobot (newPickResult cubeObject ''camera'') simService))
       = [''verify'']
   \<and> filter failed (calls (snd (executePick dazzledRobot cubeObject simService)))
       = [CameraRadiusClustering (Inl (External ''no point cloud'')),
          GripperIsHoldingSomething (Inl (External ''timeout''))]
   \<and> resultField (fst (executePick dazzledRobot cubeObject simService)) ''steps_completed''
       = Some (VList (map VStr [''open_gripper'', ''approach'', ''re_detect'', ''grasp_position'',
                                ''grab'', ''lift'', ''verify'']))"
  by (simp add: run_defs dazzledRobot_def cubeObject_def resultField_def toMap_def)

subsection \<open>Offsets\<close>

lemma stepReDetect_offset:
  assumes "detectObjects M s = (Inr redetectedObjects, s1)" and "len redetectedObjects > 0"
  shows "ApproachOffsetMm (fst (stepReDetect M obj r s))
         = specDifference (Center (elems redetectedObjects ! 0)) (Center obj)"
  using assms by (simp add: stepReDetect_def completed_def specDifference_def Let_def)

lemma stepWorldFrame_offset:
  assumes "motionGetPose M (Gripper (cfg s)) ''world'' s = (Inr gripperWorld, s1)"
      and "if w then objectWorld = Center obj
           else \<exists>cameraPose s2.
                  motionGetPose M (Camera (cfg s1)) ''world'' s1 = (Inr cameraPose, s2)
                  \<and> objectWorld = Point (Compose M cameraPose (NewPoseFromPoint (Center obj)))"
      and "objectWorld \<noteq> zeroVector"
  shows "WorldFrameOffsetMm (fst (stepWorldFrame M obj w r s))
           = specDifference (Point gripperWorld) objectWorld
         \<and> GripperPositionWorldFrame (fst (stepWorldFrame M obj w r s)) = Point gripperWorld
         \<and> ObjectPositionWorldFrame (fst (stepWorldFrame M obj w r s)) = objectWorld"
proof (cases w)
  case True
  with assms show ?thesis
    by (simp add: stepWorldFrame_def specDifference_def Let_def)
next
  case False
  with assms(2) obtain cameraPose s2 where
    c: "motionGetPose M (Camera (cfg s1)) ''world'' s1 = (Inr cameraPose, s2)"
    and o: "objectWorld = Point (Compose M cameraPose (NewPoseFromPoint (Center obj)))"
    by auto
  from False assms(1,3) c o show ?thesis
    by (simp add: stepWorldFrame_def specDifference_def Let_def)
qed

lemma toMap_offsets:
  "map_of (toMap r) ''approach_offset_mm'' = Some (specOffsetReport (ApproachOffsetMm r))
   \<and> map_of (toMap r) ''world_frame_offset_mm'' = Some (specOffsetReport (WorldFrameOffsetMm r))
   \<and> map_of (toMap r) ''gripper_position_world_frame''
       = Some (positionReport (GripperPositionWorldFrame r))
   \<and> map_of (toMap r) ''object_position_world_frame''
       = Some (positionReport (ObjectPositionWorldFrame r))"
  by (simp add: toMap_def specOffsetReport_def positionReport_def vecNorm_def power2_eq_square)

lemma pickAfterGrasp_offsets:
  assumes "pickAfterGrasp M obj w r s = (Inr m, s')"
  shows "map_of m ''approach_offset_mm''
           = Some (specOffsetReport (ApproachOffsetMm r))
         \<and> map_of m ''world_frame_offset_mm''
           = Some (specOffsetReport (WorldFrameOffsetMm (fst (stepWorldFrame M obj w r s))))
         \<and> map_of m ''gripper_position_world_frame''
           = Some (positionReport (GripperPositionWorldFrame (fst (stepWorldFrame M obj w r s))))
         \<and> map_of m ''object_position_world_frame''
           = Some (positionReport (ObjectPositionWorldFrame (fst (stepWorldFrame M obj w r s))))"
proof -
  obtain r6 s6 where w6: "stepWorldFrame M obj w r s = (r6, s6)"
    by (cases "stepWorldFrame M obj w r s")
  from pickAfterGrasp_Inr [OF assms w6] obtain h :: "err + bool" where
    m: "m = toMap
              ((completed
                 (case h of
                    Inl e \<Rightarrow> completed (completed r6 ''grab'') ''lift''
                  | Inr holding \<Rightarrow> (completed (completed r6 ''grab'') ''lift'')\<lparr>IsHolding := holding\<rparr>)
                 ''verify'')
               \<lparr>Success := (case h of Inl e \<Rightarrow> IsHolding r6 | Inr holding \<Rightarrow> holding)\<rparr>)"
    by blast
  from stepWorldFrame_frame [OF w6] have a: "ApproachOffsetMm r6 = ApproachOffsetMm r" by simp
  show ?thesis
    unfolding m toMap_offsets [THEN conjunct1] toMap_offsets [THEN conjunct2, THEN conjunct1]
      toMap_offsets [THEN conjunct2, THEN conjunct2, THEN conjunct1]
      toMap_offsets [THEN conjunct2, THEN conjunct2, THEN conjunct2]
    using a w6 by (cases h) (simp_all add: completed_def)
qed

text \<open>
  C6. If the re-detection made at step 4 succeeds with at least one object, the returned
  approach offset is the component-wise difference between the first re-detected centre
  and the original centre. If at step 6 the gripper's world pose and the object's world
  position are both obtained and the object's world position is not the zero vector, the
  returned world-frame offset is the gripper position minus the object position. Each total
  is the Euclidean norm of its vector.
\<close>

theorem offsets_reported:
  "(detectObjects M s4 = (Inr redetectedObjects, s4') \<and> len redetectedObjects > 0
      \<and> pickAfterApproach M obj w4 r4 s4 = (Inr m4, t4)
    \<longrightarrow> map_of m4 ''approach_offset_mm''
          = Some (specOffsetReport
                    (specDifference (Center (elems redetectedObjects ! 0)) (Center obj))))
   \<and> (motionGetPose M (Gripper (cfg s6)) ''world'' s6 = (Inr gripperWorld, s6')
      \<and> (if w6 then objectWorld = Center obj
          else \<exists>cameraPose s6''.
                 motionGetPose M (Camera (cfg s6')) ''world'' s6' = (Inr cameraPose, s6'')
                 \<and> objectWorld = Point (Compose M cameraPose (NewPoseFromPoint (Center obj))))
      \<and> objectWorld \<noteq> zeroVector
      \<and> pickAfterGrasp M obj w6 r6 s6 = (Inr m6, t6)
    \<longrightarrow> map_of m6 ''world_frame_offset_mm''
          = Some (specOffsetReport (specDifference (Point gripperWorld) objectWorld))
        \<and> map_of m6 ''gripper_position_world_frame'' = Some (positionReport (Point gripperWorld))
        \<and> map_of m6 ''object_position_world_frame'' = Some (positionReport objectWorld))"
proof (intro conjI impI)
  assume a: "detectObjects M s4 = (Inr redetectedObjects, s4') \<and> len redetectedObjects > 0
      \<and> pickAfterApproach M obj w4 r4 s4 = (Inr m4, t4)"
  then obtain s5 where
    g: "pickAfterGrasp M obj w4 (completed (fst (stepReDetect M obj r4 s4)) ''grasp_position'') s5
        = (Inr m4, t4)"
    using pickAfterApproach_Inr [of M obj w4 r4 s4 m4 t4] by auto
  from a have "ApproachOffsetMm (fst (stepReDetect M obj r4 s4))
         = specDifference (Center (elems redetectedObjects ! 0)) (Center obj)"
    by (intro stepReDetect_offset) auto
  with pickAfterGrasp_offsets [OF g]
  show "map_of m4 ''approach_offset_mm''
          = Some (specOffsetReport
                    (specDifference (Center (elems redetectedObjects ! 0)) (Center obj)))"
    by (simp add: completed_def)
next
  assume a: "motionGetPose M (Gripper (cfg s6)) ''world'' s6 = (Inr gripperWorld, s6')
      \<and> (if w6 then objectWorld = Center obj
          else \<exists>cameraPose s6''.
                 motionGetPose M (Camera (cfg s6')) ''world'' s6' = (Inr cameraPose, s6'')
                 \<and> objectWorld = Point (Compose M cameraPose (NewPoseFromPoint (Center obj))))
      \<and> objectWorld \<noteq> zeroVector
      \<and> pickAfterGrasp M obj w6 r6 s6 = (Inr m6, t6)"
  then have g: "pickAfterGrasp M obj w6 r6 s6 = (Inr m6, t6)" by simp
  from a have o: "WorldFrameOffsetMm (fst (stepWorldFrame M obj w6 r6 s6))
           = specDifference (Point gripperWorld) objectWorld
         \<and> GripperPositionWorldFrame (fst (stepWorldFrame M obj w6 r6 s6)) = Point gripperWorld
         \<and> ObjectPositionWorldFrame (fst (stepWorldFrame M obj w6 r6 s6)) = objectWorld"
    by (intro stepWorldFrame_offset) auto
  with pickAfterGrasp_offsets [OF g]
  show "map_of m6 ''world_frame_offset_mm''
          = Some (specOffsetReport (specDifference (Point gripperWorld) objectWorld))"
    and "map_of m6 ''gripper_position_world_frame'' = Some (positionReport (Point gripperWorld))"
    and "map_of m6 ''object_position_world_frame'' = Some (positionReport objectWorld)"
    by simp_all
qed

lemma sim_after_approach:
  "\<exists>m s'. pickAfterApproach simRobot nudgedObject False (newPickResult nudgedObject ''camera'')
            simService = (Inr m, s')"
  by (simp add: run_defs nudgedObject_def)

lemma sim_after_grasp:
  "\<exists>m s'. pickAfterGrasp simRobot nudgedObject False (newPickResult nudgedObject ''camera'')
            simService = (Inr m, s')"
  by (simp add: run_defs nudgedObject_def)

theorem offsets_reported_witness:
  "fst (detectObjects simRobot simService) = Inr (Some [cubeObject])
   \<and> len (Some [cubeObject]) > 0
   \<and> resultField (fst (pickAfterApproach simRobot nudgedObject False
                          (newPickResult nudgedObject ''camera'') simService)) ''approach_offset_mm''
       = Some (VMap [(''x'', VNum 1), (''y'', VNum (-1)), (''z'', VNum 2), (''total'', VNum (sqrt 6))])
   \<and> fst (motionGetPose simRobot (Gripper (cfg simService)) ''world'' simService) = Inr originPose
   \<and> Center nudgedObject \<noteq> zeroVector
   \<and> resultField (fst (pickAfterGrasp simRobot nudgedObject False
                          (newPickResult nudgedObject ''camera'') simService)) ''world_frame_offset_mm''
       = Some (VMap [(''x'', VNum (-119)), (''y'', VNum 44), (''z'', VNum (-308)),
                     (''total'', VNum (sqrt 110961))])"
proof -
  from sim_after_approach obtain m4 t4 where
    a: "pickAfterApproach simRobot nudgedObject False (newPickResult nudgedObject ''camera'')
          simService = (Inr m4, t4)" by blast
  from sim_after_grasp obtain m6 t6 where
    g: "pickAfterGrasp simRobot nudgedObject False (newPickResult nudgedObject ''camera'')
          simService = (Inr m6, t6)" by blast
  have d: "detectObjects simRobot simService
           = (Inr (Some [cubeObject]),
              simService\<lparr>calls := [CameraRadiusClustering (Inr [[\<lparr>X = 120, Y = -45, Z = 310\<rparr>]])]\<rparr>)"
    by (simp add: sim_defs cubeObject_def)
  have p: "motionGetPose simRobot (Gripper (cfg simService)) ''world'' simService
           = (Inr originPose,
              simService\<lparr>calls := [MotionGetPose ''gripper'' ''world'' (Inr originPose)]\<rparr>)"
    by (simp add: motionGetPose_def sim_defs)
  have c: "motionGetPose simRobot
             (Camera (cfg (simService\<lparr>calls := [MotionGetPose ''gripper'' ''world'' (Inr originPose)]\<rparr>)))
             ''world''
             (simService\<lparr>calls := [MotionGetPose ''gripper'' ''world'' (Inr originPose)]\<rparr>)
           = (Inr originPose,
              simService\<lparr>calls := [MotionGetPose ''gripper'' ''world'' (Inr originPose),
                                    MotionGetPose ''camera'' ''world'' (Inr originPose)]\<rparr>)"
    by (simp add: motionGetPose_def sim_defs)
  have o: "Center nudgedObject = Point (Compose simRobot originPose (NewPoseFromPoint (Center nudgedObject)))"
    by (simp add: sim_defs NewPoseFromPoint_def nudgedObject_def)
  have z: "Center nudgedObject \<noteq> zeroVector" by (simp add: nudgedObject_def zeroVector_def)
  note T = offsets_reported [where M = simRobot and obj = nudgedObject
      and ?s4.0 = simService and redetectedObjects = "Some [cubeObject]" and ?w4.0 = False
      and s4' = "simService\<lparr>calls := [CameraRadiusClustering (Inr [[\<lparr>X = 120, Y = -45, Z = 310\<rparr>]])]\<rparr>"
      and ?r4.0 = "newPickResult nudgedObject ''camera''" and ?m4.0 = m4 and ?t4.0 = t4
      and ?s6.0 = simService and gripperWorld = originPose and ?w6.0 = False
      and s6' = "simService\<lparr>calls := [MotionGetPose ''gripper'' ''world'' (Inr originPose)]\<rparr>"
      and objectWorld = "Center nudgedObject"
      and ?r6.0 = "newPickResult nudgedObject ''camera''" and ?m6.0 = m6 and ?t6.0 = t6]
  have l: "len (Some [cubeObject]) > 0" by (simp add: len_def)
  from T [THEN conjunct1] d l a
  have c1: "map_of m4 ''approach_offset_mm''
          = Some (specOffsetReport (specDifference (Center (elems (Some [cubeObject]) ! 0))
                    (Center nudgedObject)))"
    by blast
  have "\<exists>cameraPose s6''.
          motionGetPose simRobot
            (Camera (cfg (simService\<lparr>calls := [MotionGetPose ''gripper'' ''world'' (Inr originPose)]\<rparr>)))
            ''world''
            (simService\<lparr>calls := [MotionGetPose ''gripper'' ''world'' (Inr originPose)]\<rparr>)
          = (Inr cameraPose, s6'')
        \<and> Center nudgedObject
            = Point (Compose simRobot cameraPose (NewPoseFromPoint (Center nudgedObject)))"
    using c o by blast
  with T [THEN conjunct2] p z g
  have c2: "map_of m6 ''world_frame_offset_mm''
          = Some (specOffsetReport (specDifference (Point originPose) (Center nudgedObject)))"
    by simp
  from c1 c2 a g d p l z show ?thesis
    by (simp add: resultField_def elems_def specOffsetReport_def specDifference_def
          nudgedObject_def cubeObject_def originPose_def NewPose_def zeroVector_def)
qed

theorem origin_object_counterexample:
  "filter failed (calls (snd (executePick simRobot originObject worldService))) = []
   \<and> resultField (fst (executePick simRobot originObject worldService))
        ''gripper_position_world_frame'' = Some (positionReport \<lparr>X = 0, Y = 0, Z = 5\<rparr>)
   \<and> resultField (fst (executePick simRobot originObject worldService))
        ''object_position_world_frame'' = Some (positionReport \<lparr>X = 0, Y = 0, Z = 0\<rparr>)
   \<and> resultField (fst (executePick simRobot originObject worldService))
        ''world_frame_offset_mm''
       = Some (VMap [(''x'', VNum 0), (''y'', VNum 0), (''z'', VNum 0), (''total'', VNum 0)])
   \<and> specDifference \<lparr>X = 0, Y = 0, Z = 5\<rparr> \<lparr>X = 0, Y = 0, Z = 0\<rparr> = \<lparr>X = 0, Y = 0, Z = 5\<rparr>"
  by (simp add: run_defs worldService_def worldConfig_def originObject_def resultField_def
        toMap_def positionReport_def specDifference_def vecNorm_def)

section \<open>float64 rounding\<close>

text \<open>
  \<open>fl\<close> is evaluated binade by binade (\<open>fl_eval\<close>); integers below \<open>2 ^ 53\<close> are
  representable, so an operation whose exact result is such an integer does not round.
\<close>

lemma roundEven_of_int: "roundEven (of_int k) = k"
  by (simp add: roundEven_def)

lemma roundEven_near:
  assumes "of_int k - 1 / 2 < q" and "q < of_int k + 1 / 2"
  shows "roundEven q = k"
proof (cases "of_int k \<le> q")
  case True
  with assms have "\<lfloor>q\<rfloor> = k" by (simp add: floor_eq_iff)
  with assms show ?thesis by (simp add: roundEven_def)
next
  case False
  with assms have "\<lfloor>q\<rfloor> = k - 1" by (simp add: floor_eq_iff)
  with assms False show ?thesis by (simp add: roundEven_def)
qed

lemma fl_eval:
  assumes "2 powi E \<le> \<bar>x\<bar>" and "\<bar>x\<bar> < 2 powi (E + 1)" and "- 1022 \<le> E"
  shows "fl x = of_int (roundEven (x / 2 powi (E - 52))) * 2 powi (E - 52)"
proof -
  have p: "(0::real) < 2 powi E" by simp
  with assms(1) have x0: "x \<noteq> 0" by (cases "x = 0") (simp_all add: not_le [symmetric])
  have "(2::real) powr of_int E = 2 powi E" "(2::real) powr (of_int E + 1) = 2 powi (E + 1)"
    using powr_real_of_int' [of "2::real" E] powr_real_of_int' [of "2::real" "E + 1"] by simp_all
  with assms(1,2) x0 have "\<lfloor>log 2 \<bar>x\<bar>\<rfloor> = E"
    by (simp add: floor_log_eq_powr_iff)
  moreover from assms(3) have "max (E - 52) (- 1074) = E - 52" by simp
  ultimately show ?thesis using x0 by (simp only: fl_def Let_def if_False)
qed

lemma fl_0: "fl 0 = 0"
  by (simp add: fl_def)

lemma fl_Ints:
  assumes "x \<in> \<int>" and "\<bar>x\<bar> < 2 ^ 53"
  shows "fl x = x"
proof (cases "x = 0")
  case True
  then show ?thesis by (simp add: fl_0)
next
  case False
  from assms(1) obtain n where n: "x = of_int n" by (auto elim: Ints_cases)
  with False have n1: "1 \<le> \<bar>x\<bar>" by (simp add: n)
  define e where "e = max (\<lfloor>log 2 \<bar>x\<bar>\<rfloor> - 52) (- 1074)"
  from assms(2) n1 have "log 2 \<bar>x\<bar> < 53"
    by (simp add: log_less_iff)
  then have "\<lfloor>log 2 \<bar>x\<bar>\<rfloor> < 53" by (simp add: floor_less_iff)
  then have e0: "e \<le> 0" by (simp add: e_def)
  define k where "k = nat (- e)"
  from e0 have pe: "(2::real) powi e = 1 / 2 ^ k"
    by (simp add: power_int_def k_def inverse_eq_divide power_one_over)
  have "x / 2 powi e = of_int (n * 2 ^ k)" by (simp add: pe n)
  then have r: "roundEven (x / 2 powi e) = n * 2 ^ k" by (simp only: roundEven_of_int)
  from False have "fl x = of_int (roundEven (x / 2 powi e)) * 2 powi e"
    by (simp only: fl_def Let_def e_def if_False)
  also from r pe have "\<dots> = of_int (n * 2 ^ k) * (1 / 2 ^ k)" by simp
  also have "\<dots> = x" by (simp add: n)
  finally show ?thesis .
qed

lemma fl_numeral [simp]: "numeral k < (2::real) ^ 53 \<Longrightarrow> fl (numeral k) = numeral k"
  by (rule fl_Ints) simp_all

lemma fl_neg_numeral [simp]:
  "numeral k < (2::real) ^ 53 \<Longrightarrow> fl (- numeral k) = - numeral k"
  by (rule fl_Ints) simp_all

lemma fl_1 [simp]: "fl 1 = 1"
  by (rule fl_Ints) simp_all

lemma sqrt_100: "sqrt 100 = 10"
  by (rule real_sqrt_unique) simp_all

lemmas float_ops = fadd_def fsub_def fmul_def fdiv_def fsqrt_def

section \<open>The convergence loop\<close>

lemma motionGetPose_frame:
  "motionGetPose M c f s = (r, s1) \<Longrightarrow>
   cfg s1 = cfg s \<and> calls s1 = calls s @ [MotionGetPose c f r]
   \<and> r = fst (GetPose M c f (world s)) \<and> world s1 = snd (GetPose M c f (world s))"
  by (auto simp: motionGetPose_def split: prod.splits)

lemma motionMove_frame:
  "motionMove M c d s = (r, s1) \<Longrightarrow>
   cfg s1 = cfg s \<and> calls s1 = calls s @ [MotionMove c d r]
   \<and> r = fst (Move M c d (world s)) \<and> world s1 = snd (Move M c d (world s))"
  by (auto simp: motionMove_def split: prod.splits)

text \<open>One iteration of the loop, as a case distinction on the answers of the motion service.\<close>

lemma moveLoop_iteration:
  assumes "steps < maxSteps"
  shows "moveLoop M target stepSize steps s =
     (case motionGetPose M (Gripper (cfg s)) ''world'' s of
        (Inl e, s1) \<Rightarrow> (Inl (FailedGripperPose e), s1)
      | (Inr gripperPose, s1) \<Rightarrow>
          if distance target (Point gripperPose) \<le> 1 then (Inr steps, s1)
          else (case motionMove M (Gripper (cfg s1)) (nextWaypoint target stepSize gripperPose) s1 of
                  (Inl e, s2) \<Rightarrow> (Inl (StepMoveFailed steps e), s2)
                | (Inr success, s2) \<Rightarrow>
                    if \<not> success then (Inl (StepNoPath steps), s2)
                    else moveLoop M target stepSize (steps + 1) s2))"
  using assms
  by (subst moveLoop.simps)
     (simp add: distance_def nextWaypoint_def Let_def split: prod.splits sum.splits)

lemma moveLoop_exit: "\<not> steps < maxSteps \<Longrightarrow> moveLoop M target stepSize steps s = (Inr steps, s)"
  by (subst moveLoop.simps) simp

lemma moveLoop_appends:
  "moveLoop M target stepSize steps s = (r, s') \<Longrightarrow>
   (\<exists>cs. calls s' = calls s @ cs) \<and> cfg s' = cfg s \<and> currentStatus s' = currentStatus s
   \<and> lastDetection s' = lastDetection s \<and> lastResult s' = lastResult s"
proof (induction "maxSteps - steps" arbitrary: steps s)
  case 0
  then have "\<not> steps < maxSteps" by simp
  with 0 moveLoop_exit [of steps M target stepSize s] show ?case by auto
next
  case (Suc n)
  then have lt: "steps < maxSteps" by simp
  from Suc.hyps(2) have n: "n = maxSteps - Suc steps" by simp
  note IH = Suc.hyps(1) [OF n]
  from Suc.prems lt show ?case
    by (auto simp: moveLoop_iteration motionGetPose_def motionMove_def
             split: prod.splits sum.splits if_splits dest!: IH)
qed

lemma moveLoop_never_converging:
  assumes "moveLoop M target stepSize steps s = (r, s')"
      and "calls s' = calls s @ cs"
      and "list_all (\<lambda>c. \<not> failed c) cs"
      and "list_all (\<lambda>d. d > 1) (observedDistances target cs)"
      and "steps \<le> maxSteps"
  shows "r = Inr maxSteps
         \<and> map isMove cs = concat (replicate (maxSteps - steps) [False, True])
         \<and> map isGetPose cs = concat (replicate (maxSteps - steps) [True, False])"
  using assms
proof (induction "maxSteps - steps" arbitrary: steps s cs)
  case 0
  then have "\<not> steps < maxSteps" by simp
  with 0 moveLoop_exit [of steps M target stepSize s] show ?case by auto
next
  case (Suc n)
  then have lt: "steps < maxSteps" by simp
  obtain g s1 where g: "motionGetPose M (Gripper (cfg s)) ''world'' s = (g, s1)"
    by (cases "motionGetPose M (Gripper (cfg s)) ''world'' s")
  note g1 = motionGetPose_frame [OF g]
  show ?case
  proof (cases g)
    case (Inl e)
    with Suc.prems(1) g lt have "s' = s1" by (simp add: moveLoop_iteration)
    with g1 Suc.prems(2) Inl have "cs = [MotionGetPose (Gripper (cfg s)) ''world'' (Inl e)]" by simp
    with Suc.prems(3) show ?thesis by simp
  next
    case (Inr gripperPose)
    show ?thesis
    proof (cases "distance target (Point gripperPose) \<le> 1")
      case True
      with Suc.prems(1) g lt Inr have "s' = s1" by (simp add: moveLoop_iteration)
      with g1 Suc.prems(2) Inr
      have "cs = [MotionGetPose (Gripper (cfg s)) ''world'' (Inr gripperPose)]" by simp
      with Suc.prems(4) True show ?thesis by simp
    next
      case False
      obtain mv s2 where
        mv: "motionMove M (Gripper (cfg s1)) (nextWaypoint target stepSize gripperPose) s1 = (mv, s2)"
        by (cases "motionMove M (Gripper (cfg s1)) (nextWaypoint target stepSize gripperPose) s1")
      note m1 = motionMove_frame [OF mv]
      show ?thesis
      proof (cases "mv = Inr True")
        case True
        with Suc.prems(1) g lt Inr False mv
        have rec: "moveLoop M target stepSize (steps + 1) s2 = (r, s')"
          by (simp add: moveLoop_iteration)
        from Suc.prems(2) g1 m1 have "\<exists>cs'. cs = [MotionGetPose (Gripper (cfg s)) ''world'' g,
               MotionMove (Gripper (cfg s1)) (nextWaypoint target stepSize gripperPose) mv] @ cs'
               \<and> calls s' = calls s2 @ cs'"
          using moveLoop_appends [OF rec] by auto
        then obtain cs' where
          cs: "cs = [MotionGetPose (Gripper (cfg s)) ''world'' g,
               MotionMove (Gripper (cfg s1)) (nextWaypoint target stepSize gripperPose) mv] @ cs'"
          and c2: "calls s' = calls s2 @ cs'" by blast
        from Suc.hyps(2) have n: "n = maxSteps - (steps + 1)" by simp
        from Suc.prems(3,4) cs Inr have
          ok: "list_all (\<lambda>c. \<not> failed c) cs'" "list_all (\<lambda>d. d > 1) (observedDistances target cs')"
          by simp_all
        from Suc.hyps(1) [OF n rec c2 ok] lt
        have "r = Inr maxSteps
         \<and> map isMove cs' = concat (replicate (maxSteps - (steps + 1)) [False, True])
         \<and> map isGetPose cs' = concat (replicate (maxSteps - (steps + 1)) [True, False])"
          by simp
        moreover from lt have "maxSteps - steps = Suc (maxSteps - (steps + 1))" by simp
        ultimately show ?thesis using cs by simp
      next
        case nt: False
        with Suc.prems(1) g lt Inr False mv have "s' = s2"
          by (cases mv) (auto simp: moveLoop_iteration)
        with g1 m1 Suc.prems(2)
        have "cs = [MotionGetPose (Gripper (cfg s)) ''world'' g,
               MotionMove (Gripper (cfg s1)) (nextWaypoint target stepSize gripperPose) mv]" by simp
        with Suc.prems(3) nt show ?thesis by simp
      qed
    qed
  qed
qed

lemma observedDistances_append:
  "observedDistances target (xs @ ys) = observedDistances target xs @ observedDistances target ys"
  by (induction target xs rule: observedDistances.induct) simp_all

text \<open>
  C5. In a run of \<open>handleMoveTo\<close> in which every pose query and every move succeeds and
  every observed distance to the target is above 1 mm, the call fails with the
  did-not-reach-target error after exactly 200 iterations, each one pose query followed by
  one move (and no final pose query); the status is back to \<open>idle\<close>. Without the condition
  on the collaborators the run can stop earlier with another error.
\<close>

theorem never_converging_run:
  assumes "handleMoveTo M target stepSize s = (r, s')"
      and "list_all (\<lambda>c. \<not> failed c) (newCalls s s')"
      and "list_all (\<lambda>d. d > 1) (observedDistances target (newCalls s s'))"
  shows "r = Inl (DidNotReachTarget 200)
         \<and> map isGetPose (newCalls s s') = concat (replicate 200 [True, False])
         \<and> map isMove (newCalls s s') = concat (replicate 200 [False, True])
         \<and> currentStatus s' = ''idle''"
proof -
  obtain lr s1 where
    l: "moveLoop M target stepSize 0 (s\<lparr>currentStatus := ''moving''\<rparr>) = (lr, s1)"
    by (cases "moveLoop M target stepSize 0 (s\<lparr>currentStatus := ''moving''\<rparr>)")
  from moveLoop_appends [OF l] obtain cs where cs: "calls s1 = calls s @ cs" by auto
  have "\<exists>ds. newCalls s s' = cs @ ds"
  proof (cases lr)
    case (Inl e)
    with assms(1) l cs show ?thesis by (auto simp: handleMoveTo_def newCalls_def)
  next
    case (Inr k)
    with assms(1) l cs show ?thesis
      by (auto simp: handleMoveTo_def newCalls_def motionGetPose_def Let_def
               split: if_splits prod.splits)
  qed
  then obtain ds where ds: "newCalls s s' = cs @ ds" by blast
  from assms(2,3) ds have ok: "list_all (\<lambda>c. \<not> failed c) cs"
    "list_all (\<lambda>d. d > 1) (observedDistances target cs)"
    by (simp_all add: observedDistances_append)
  from cs have cs': "calls s1 = calls (s\<lparr>currentStatus := ''moving''\<rparr>) @ cs" by simp
  from moveLoop_never_converging [OF l cs' ok] have
    lr: "lr = Inr maxSteps"
    and mv: "map isMove cs = concat (replicate maxSteps [False, True])"
    and gp: "map isGetPose cs = concat (replicate maxSteps [True, False])"
    by simp_all
  from assms(1) l lr cs have "r = Inl (DidNotReachTarget maxSteps)"
    and "s' = s1\<lparr>currentStatus := ''idle''\<rparr>"
    by (simp_all add: handleMoveTo_def)
  with cs mv gp show ?thesis by (simp add: newCalls_def maxSteps_def)
qed

lemma stuck_loop:
  assumes "world s = originPose" and "Gripper (cfg s) = ''gripper''" and "steps \<le> maxSteps"
      and "moveLoop stuckRobot \<lparr>X = 10, Y = 0, Z = 0\<rparr> 20 steps s = (r, s')"
  shows "\<exists>cs. calls s' = calls s @ cs \<and> list_all (\<lambda>c. \<not> failed c) cs
              \<and> list_all (\<lambda>d. d > 1) (observedDistances \<lparr>X = 10, Y = 0, Z = 0\<rparr> cs)"
  using assms
proof (induction "maxSteps - steps" arbitrary: steps s)
  case 0
  then have "\<not> steps < maxSteps" by simp
  with 0 moveLoop_exit [of steps stuckRobot _ _ s] show ?case by auto
next
  case (Suc n)
  then have lt: "steps < maxSteps" by simp
  from Suc.hyps(2) have n: "n = maxSteps - Suc steps" by simp
  have d: "distance \<lparr>X = 10, Y = 0, Z = 0\<rparr> (Point originPose) = 10"
    by (simp add: distance_def float_ops fl_0 sqrt_100 originPose_def NewPose_def zeroVector_def)
  define s2 where "s2 = s\<lparr>world := originPose,
      calls := calls s @ [MotionGetPose ''gripper'' ''world'' (Inr originPose),
        MotionMove ''gripper'' (nextWaypoint \<lparr>X = 10, Y = 0, Z = 0\<rparr> 20 originPose) (Inr True)]\<rparr>"
  from Suc.prems lt d have rec: "moveLoop stuckRobot \<lparr>X = 10, Y = 0, Z = 0\<rparr> 20 (Suc steps) s2 = (r, s')"
    by (simp add: moveLoop_iteration motionGetPose_def motionMove_def stuckRobot_def simRobot_def
          s2_def)
  have "world s2 = originPose" "Gripper (cfg s2) = ''gripper''" "Suc steps \<le> maxSteps"
    using Suc.prems lt by (simp_all add: s2_def)
  from Suc.hyps(1) [OF n this rec] obtain cs where
    "calls s' = calls s2 @ cs" "list_all (\<lambda>c. \<not> failed c) cs"
    "list_all (\<lambda>d. d > 1) (observedDistances \<lparr>X = 10, Y = 0, Z = 0\<rparr> cs)" by blast
  with d show ?case by (simp add: s2_def)
qed

theorem never_converging_run_witness:
  "list_all (\<lambda>c. \<not> failed c)
     (newCalls simService (snd (handleMoveTo stuckRobot \<lparr>X = 10, Y = 0, Z = 0\<rparr> 20 simService)))
   \<and> list_all (\<lambda>d. d > 1)
       (observedDistances \<lparr>X = 10, Y = 0, Z = 0\<rparr>
          (newCalls simService (snd (handleMoveTo stuckRobot \<lparr>X = 10, Y = 0, Z = 0\<rparr> 20 simService))))
   \<and> fst (handleMoveTo stuckRobot \<lparr>X = 10, Y = 0, Z = 0\<rparr> 20 simService)
       = Inl (DidNotReachTarget 200)
   \<and> map isMove
        (newCalls simService (snd (handleMoveTo stuckRobot \<lparr>X = 10, Y = 0, Z = 0\<rparr> 20 simService)))
       = concat (replicate 200 [False, True])"
proof -
  let ?T = "\<lparr>X = 10, Y = 0, Z = 0\<rparr>"
  obtain r s' where h: "handleMoveTo stuckRobot ?T 20 simService = (r, s')"
    by (cases "handleMoveTo stuckRobot ?T 20 simService")
  obtain lr s1 where
    l: "moveLoop stuckRobot ?T 20 0 (simService\<lparr>currentStatus := ''moving''\<rparr>) = (lr, s1)"
    by (cases "moveLoop stuckRobot ?T 20 0 (simService\<lparr>currentStatus := ''moving''\<rparr>)")
  have "world (simService\<lparr>currentStatus := ''moving''\<rparr>) = originPose"
    "Gripper (cfg (simService\<lparr>currentStatus := ''moving''\<rparr>)) = ''gripper''"
    "0 \<le> maxSteps"
    by (simp_all add: simService_def NewHandEyeTest_def simConfig_def)
  from stuck_loop [OF this l] obtain cs where
    cs: "calls s1 = calls simService @ cs" and ok: "list_all (\<lambda>c. \<not> failed c) cs"
    "list_all (\<lambda>d. d > 1) (observedDistances ?T cs)" by auto
  from cs ok l moveLoop_never_converging [OF l _ ok, of ] have lr: "lr = Inr maxSteps"
    by simp
  with h l have s': "s' = s1\<lparr>currentStatus := ''idle''\<rparr>"
    by (simp add: handleMoveTo_def)
  with cs have nc: "newCalls simService s' = cs" by (simp add: newCalls_def)
  from never_converging_run [OF h] nc ok h show ?thesis by simp
qed

theorem blocked_planner_counterexample:
  "fst (handleMoveTo blockedRobot \<lparr>X = 10, Y = 0, Z = 0\<rparr> 20 simService) = Inl (StepNoPath 0)
   \<and> observedDistances \<lparr>X = 10, Y = 0, Z = 0\<rparr>
        (newCalls simService (snd (handleMoveTo blockedRobot \<lparr>X = 10, Y = 0, Z = 0\<rparr> 20 simService)))
       = [10]
   \<and> map isMove
        (newCalls simService (snd (handleMoveTo blockedRobot \<lparr>X = 10, Y = 0, Z = 0\<rparr> 20 simService)))
       = [False, True]"
  by (simp add: handleMoveTo_def moveLoop_iteration maxSteps_def motionGetPose_def motionMove_def
        blockedRobot_def simRobot_def simService_def simConfig_def NewHandEyeTest_def
        originPose_def NewPose_def zeroVector_def newCalls_def distance_def float_ops fl_0
        sqrt_100)

subsection \<open>Moves that land exactly\<close>

text \<open>
  Between whole-millimetre positions on a common axis the loop's arithmetic is exact: the
  difference vector has one nonzero component \<open>d\<close>, an integer; its square is an integer
  below \<open>2 ^ 53\<close>; the computed distance is \<open>\<bar>d\<bar>\<close>; the direction is \<open>1\<close> or \<open>-1\<close> on that axis;
  and the next waypoint is again a whole-millimetre position on the axis.
\<close>

lemma fl_whole:
  assumes "x \<in> \<int>" and "\<bar>x\<bar> \<le> 2 ^ 52"
  shows "fl x = x"
  using assms by (intro fl_Ints) simp_all

lemma fsub_whole:
  assumes "t \<in> \<int>" and "p \<in> \<int>" and "\<bar>t\<bar> \<le> 2 ^ 25" and "\<bar>p\<bar> \<le> 2 ^ 25"
  shows "fsub t p = t - p" and "\<bar>t - p\<bar> \<le> 2 ^ 26" and "t - p \<in> \<int>"
proof -
  from assms(3,4) show b: "\<bar>t - p\<bar> \<le> 2 ^ 26" by simp
  from assms(1,2) show i: "t - p \<in> \<int>" by simp
  from b have "\<bar>t - p\<bar> \<le> 2 ^ 52" by simp
  with i show "fsub t p = t - p" unfolding fsub_def by (rule fl_whole)
qed

lemma fmul_square:
  assumes "d \<in> \<int>" and "\<bar>d\<bar> \<le> 2 ^ 26"
  shows "fmul d d = d * d"
proof -
  from assms(2) have "\<bar>d\<bar> * \<bar>d\<bar> \<le> 2 ^ 26 * 2 ^ 26" by (intro mult_mono) simp_all
  then have "\<bar>d * d\<bar> \<le> 2 ^ 52" by (simp add: abs_mult)
  moreover from assms(1) have "d * d \<in> \<int>" by simp
  ultimately show ?thesis unfolding fmul_def by (rule fl_whole [rotated])
qed

text \<open>
  The computed length of a difference vector with one nonzero whole component.
\<close>

lemma norm_one_component:
  assumes "d \<in> \<int>" and "\<bar>d\<bar> \<le> 2 ^ 26"
  shows "fsqrt (fadd (fadd (fmul d d) (fmul 0 0)) (fmul 0 0)) = \<bar>d\<bar>"
    and "fsqrt (fadd (fadd (fmul 0 0) (fmul d d)) (fmul 0 0)) = \<bar>d\<bar>"
    and "fsqrt (fadd (fadd (fmul 0 0) (fmul 0 0)) (fmul d d)) = \<bar>d\<bar>"
proof -
  from assms(2) have "\<bar>d\<bar> * \<bar>d\<bar> \<le> 2 ^ 26 * 2 ^ 26" by (intro mult_mono) simp_all
  then have b: "\<bar>d * d\<bar> \<le> 2 ^ 52" by (simp add: abs_mult)
  from assms(1) have i: "d * d \<in> \<int>" by simp
  have sq: "fl (d * d) = d * d" using i b by (rule fl_whole)
  from assms have a: "fl \<bar>d\<bar> = \<bar>d\<bar>" by (intro fl_whole) simp_all
  have m: "fmul d d = d * d" using assms by (rule fmul_square)
  show "fsqrt (fadd (fadd (fmul d d) (fmul 0 0)) (fmul 0 0)) = \<bar>d\<bar>"
    "fsqrt (fadd (fadd (fmul 0 0) (fmul d d)) (fmul 0 0)) = \<bar>d\<bar>"
    "fsqrt (fadd (fadd (fmul 0 0) (fmul 0 0)) (fmul d d)) = \<bar>d\<bar>"
    unfolding m by (simp_all add: fadd_def fmul_def fsqrt_def fl_0 sq a)
qed

lemma distance_whole:
  assumes "wholeMm target" and "wholeMm p" and "alongAxis target p"
  shows "distance target p = \<bar>X target - X p\<bar> + \<bar>Y target - Y p\<bar> + \<bar>Z target - Z p\<bar>"
proof -
  from assms(1,2) have
    x: "fsub (X target) (X p) = X target - X p" "X target - X p \<in> \<int>" "\<bar>X target - X p\<bar> \<le> 2 ^ 26"
    by (intro fsub_whole; simp add: wholeMm_def)+
  from assms(1,2) have
    y: "fsub (Y target) (Y p) = Y target - Y p" "Y target - Y p \<in> \<int>" "\<bar>Y target - Y p\<bar> \<le> 2 ^ 26"
    by (intro fsub_whole; simp add: wholeMm_def)+
  from assms(1,2) have
    z: "fsub (Z target) (Z p) = Z target - Z p" "Z target - Z p \<in> \<int>" "\<bar>Z target - Z p\<bar> \<le> 2 ^ 26"
    by (intro fsub_whole; simp add: wholeMm_def)+
  from assms(3) consider "Y target = Y p" "Z target = Z p" | "X target = X p" "Z target = Z p"
    | "X target = X p" "Y target = Y p"
    unfolding alongAxis_def by blast
  then show ?thesis
  proof cases
    case 1
    with norm_one_component(1) [OF x(2,3)] x(1) show ?thesis
      by (simp add: distance_def fsub_def fl_0)
  next
    case 2
    with norm_one_component(2) [OF y(2,3)] y(1) show ?thesis
      by (simp add: distance_def fsub_def fl_0)
  next
    case 3
    with norm_one_component(3) [OF z(2,3)] z(1) show ?thesis
      by (simp add: distance_def fsub_def fl_0)
  qed
qed

lemma float_zero:
  "fsub 0 0 = 0" "fmul 0 0 = 0" "fadd 0 0 = 0" "fsqrt 0 = 0" "fdiv 0 d = 0" "fmul 0 s = 0"
  by (simp_all add: float_ops fl_0)


text \<open>
  A coordinate in which the gripper is level with the target stays; the coordinate that
  carries the distance advances by the step size.
\<close>

lemma idle_coordinate:
  assumes "p \<in> \<int>" and "\<bar>p\<bar> \<le> 2 ^ 25"
  shows "fadd p (fmul (fdiv (fsub p p) d) stepSize) = p"
  using assms by (simp add: float_ops fl_0 fl_whole)

lemma moving_coordinate:
  assumes "t \<in> \<int>" and "p \<in> \<int>" and "\<bar>t\<bar> \<le> 2 ^ 25" and "\<bar>p\<bar> \<le> 2 ^ 25"
      and "stepSize \<in> \<int>" and "0 < stepSize" and "stepSize < \<bar>t - p\<bar>"
  shows "fadd p (fmul (fdiv (fsub t p) \<bar>t - p\<bar>) stepSize) = p + sgn (t - p) * stepSize"
    and "p + sgn (t - p) * stepSize \<in> \<int>"
    and "\<bar>p + sgn (t - p) * stepSize\<bar> \<le> 2 ^ 25"
    and "\<bar>t - (p + sgn (t - p) * stepSize)\<bar> = \<bar>t - p\<bar> - stepSize"
proof -
  note s = fsub_whole [OF assms(1-4)]
  from assms(6,7) have nz: "t - p \<noteq> 0" by auto
  then have q: "(t - p) / \<bar>t - p\<bar> = sgn (t - p)"
    by (cases "p < t") (simp_all add: sgn_real_def abs_if divide_eq_minus_1_iff)
  have sg: "sgn (t - p) = 1 \<or> sgn (t - p) = - 1" using nz by (auto simp: sgn_real_def)
  have "fl (- 1) = - 1" by (rule fl_Ints) simp_all
  with sg have f1: "fl (sgn (t - p)) = sgn (t - p)" by auto
  from sg assms(5) show i: "p + sgn (t - p) * stepSize \<in> \<int>" using assms(2) by auto
  from sg assms(3,4,6,7) show b: "\<bar>p + sgn (t - p) * stepSize\<bar> \<le> 2 ^ 25"
    by (auto simp: sgn_real_def split: if_splits)
  from sg assms(6,7) show "\<bar>t - (p + sgn (t - p) * stepSize)\<bar> = \<bar>t - p\<bar> - stepSize"
    by (auto simp: sgn_real_def split: if_splits)
  from sg assms(5) have "sgn (t - p) * stepSize \<in> \<int>" by auto
  moreover from sg assms(6,7) s(2) have "\<bar>sgn (t - p) * stepSize\<bar> \<le> 2 ^ 52"
    by (auto simp: abs_mult)
  ultimately have f2: "fl (sgn (t - p) * stepSize) = sgn (t - p) * stepSize" by (rule fl_whole)
  from b have "\<bar>p + sgn (t - p) * stepSize\<bar> \<le> 2 ^ 52" by simp
  with i have f3: "fl (p + sgn (t - p) * stepSize) = p + sgn (t - p) * stepSize" by (rule fl_whole)
  show "fadd p (fmul (fdiv (fsub t p) \<bar>t - p\<bar>) stepSize) = p + sgn (t - p) * stepSize"
    unfolding s(1) fdiv_def q f1 fmul_def f2 fadd_def f3 ..
qed

lemma alongAxis_self: "alongAxis target target"
  by (simp add: alongAxis_def)

lemma nextWaypoint_parent: "parent (nextWaypoint target stepSize gripperPose) = ''world''"
  by (simp add: nextWaypoint_def NewPoseInFrame_def Let_def)

lemma nextWaypoint_whole:
  assumes "wholeMm target" and "wholeMm (Point gripperPose)"
      and "alongAxis target (Point gripperPose)"
      and "stepSize \<in> \<int>" and "0 < stepSize"
  shows "wholeMm (Point (pose (nextWaypoint target stepSize gripperPose)))
         \<and> alongAxis target (Point (pose (nextWaypoint target stepSize gripperPose)))
         \<and> distance target (Point (pose (nextWaypoint target stepSize gripperPose)))
             = (if distance target (Point gripperPose) \<le> stepSize then 0
                else distance target (Point gripperPose) - stepSize)"
proof (cases "distance target (Point gripperPose) \<le> stepSize")
  case True
  then have "Point (pose (nextWaypoint target stepSize gripperPose)) = target"
    by (simp add: nextWaypoint_def NewPoseInFrame_def NewPose_def Let_def)
  with True assms(1) distance_whole [OF assms(1) assms(1) alongAxis_self] show ?thesis
    by (simp add: alongAxis_self)
next
  case False
  define p where "p = Point gripperPose"
  define D where "D = distance target p"
  define q where "q = Point (pose (nextWaypoint target stepSize gripperPose))"
  from False have far: "stepSize < D" by (simp add: D_def p_def)
  then have q: "q = \<lparr>X = fadd (X p) (fmul (fdiv (fsub (X target) (X p)) D) stepSize),
                      Y = fadd (Y p) (fmul (fdiv (fsub (Y target) (Y p)) D) stepSize),
                      Z = fadd (Z p) (fmul (fdiv (fsub (Z target) (Z p)) D) stepSize)\<rparr>"
    by (simp add: q_def nextWaypoint_def NewPoseInFrame_def NewPose_def Let_def D_def p_def)
  from assms(1) have t: "X target \<in> \<int>" "Y target \<in> \<int>" "Z target \<in> \<int>"
    "\<bar>X target\<bar> \<le> 2 ^ 25" "\<bar>Y target\<bar> \<le> 2 ^ 25" "\<bar>Z target\<bar> \<le> 2 ^ 25"
    by (simp_all add: wholeMm_def)
  from assms(2) have c: "X p \<in> \<int>" "Y p \<in> \<int>" "Z p \<in> \<int>"
    "\<bar>X p\<bar> \<le> 2 ^ 25" "\<bar>Y p\<bar> \<le> 2 ^ 25" "\<bar>Z p\<bar> \<le> 2 ^ 25"
    by (simp_all add: wholeMm_def p_def)
  from assms(2,3) have wp: "wholeMm p" and ap: "alongAxis target p" by (simp_all add: p_def)
  note d = distance_whole [OF assms(1) wp ap, folded D_def]
  from ap consider "Y target = Y p" "Z target = Z p" | "X target = X p" "Z target = Z p"
    | "X target = X p" "Y target = Y p"
    unfolding alongAxis_def by blast
  then have "wholeMm q \<and> alongAxis target q \<and> distance target q = D - stepSize"
  proof cases
    case 1
    with d have D: "D = \<bar>X target - X p\<bar>" by simp
    note m = moving_coordinate [OF t(1) c(1) t(4) c(4) assms(4,5) far [unfolded D]]
    from 1 have qy: "Y q = Y target" and qz: "Z q = Z target"
      by (simp_all add: q idle_coordinate [OF c(2,5)] idle_coordinate [OF c(3,6)])
    have qx: "X q = X p + sgn (X target - X p) * stepSize" by (simp add: q D m(1))
    from qx qy qz m(2,3) t have w: "wholeMm q" by (simp add: wholeMm_def)
    from qy qz have a: "alongAxis target q" by (simp add: alongAxis_def)
    from distance_whole [OF assms(1) w a] qx qy qz m(4) D show ?thesis using w a by simp
  next
    case 2
    with d have D: "D = \<bar>Y target - Y p\<bar>" by simp
    note m = moving_coordinate [OF t(2) c(2) t(5) c(5) assms(4,5) far [unfolded D]]
    from 2 have qx: "X q = X target" and qz: "Z q = Z target"
      by (simp_all add: q idle_coordinate [OF c(1,4)] idle_coordinate [OF c(3,6)])
    have qy: "Y q = Y p + sgn (Y target - Y p) * stepSize" by (simp add: q D m(1))
    from qx qy qz m(2,3) t have w: "wholeMm q" by (simp add: wholeMm_def)
    from qx qz have a: "alongAxis target q" by (simp add: alongAxis_def)
    from distance_whole [OF assms(1) w a] qx qy qz m(4) D show ?thesis using w a by simp
  next
    case 3
    with d have D: "D = \<bar>Z target - Z p\<bar>" by simp
    note m = moving_coordinate [OF t(3) c(3) t(6) c(6) assms(4,5) far [unfolded D]]
    from 3 have qx: "X q = X target" and qy: "Y q = Y target"
      by (simp_all add: q idle_coordinate [OF c(1,4)] idle_coordinate [OF c(2,5)])
    have qz: "Z q = Z p + sgn (Z target - Z p) * stepSize" by (simp add: q D m(1))
    from qx qy qz m(2,3) t have w: "wholeMm q" by (simp add: wholeMm_def)
    from qx qy have a: "alongAxis target q" by (simp add: alongAxis_def)
    from distance_whole [OF assms(1) w a] qx qy qz m(4) D show ?thesis using w a by simp
  qed
  with False show ?thesis by (simp add: q_def D_def p_def)
qed

lemma landsExactly_GetPose:
  assumes "landsExactly M g position" and "motionGetPose M g ''world'' s = (r, s1)"
  shows "\<exists>p. r = Inr p \<and> Point p = position (world s)
             \<and> position (world s1) = position (world s) \<and> cfg s1 = cfg s"
proof -
  from assms(1) obtain p where
    "fst (GetPose M g ''world'' (world s)) = Inr p" "Point p = position (world s)"
    "position (snd (GetPose M g ''world'' (world s))) = position (world s)"
    unfolding landsExactly_def by blast
  with motionGetPose_frame [OF assms(2)] show ?thesis by simp
qed

lemma landsExactly_Move:
  assumes "landsExactly M g position" and "motionMove M g dest s = (r, s1)"
      and "parent dest = ''world''"
  shows "r = Inr True \<and> position (world s1) = Point (pose dest) \<and> cfg s1 = cfg s"
proof -
  from assms(1,3) have
    "fst (Move M g dest (world s)) = Inr True"
    "position (snd (Move M g dest (world s))) = Point (pose dest)"
    unfolding landsExactly_def by blast+
  with motionMove_frame [OF assms(2)] show ?thesis by simp
qed

lemma exact_iteration:
  assumes "landsExactly M g position" and "Gripper (cfg s) = g"
      and "wholeMm target" and "stepSize \<in> \<int>" and "stepSize > 0"
      and "steps < maxSteps"
      and "wholeMm (position (world s))" and "alongAxis target (position (world s))"
      and "1 < distance target (position (world s))"
  shows "\<exists>s2. moveLoop M target stepSize steps s = moveLoop M target stepSize (Suc steps) s2
              \<and> cfg s2 = cfg s
              \<and> wholeMm (position (world s2)) \<and> alongAxis target (position (world s2))
              \<and> distance target (position (world s2))
                  = (if distance target (position (world s)) \<le> stepSize then 0
                     else distance target (position (world s)) - stepSize)"
proof -
  obtain r s1 where g: "motionGetPose M g ''world'' s = (r, s1)"
    by (cases "motionGetPose M g ''world'' s")
  from landsExactly_GetPose [OF assms(1) g] obtain p where
    p: "r = Inr p" "Point p = position (world s)" "position (world s1) = position (world s)"
       "cfg s1 = cfg s"
    by blast
  from assms(7,8,9) p have pp: "wholeMm (Point p)" "alongAxis target (Point p)"
    and farp: "1 < distance target (Point p)" by simp_all
  note w = nextWaypoint_whole [OF assms(3) pp assms(4,5)]
  obtain mv s2 where m: "motionMove M g (nextWaypoint target stepSize p) s1 = (mv, s2)"
    by (cases "motionMove M g (nextWaypoint target stepSize p) s1")
  from landsExactly_Move [OF assms(1) m nextWaypoint_parent] have
    mv: "mv = Inr True" "position (world s2) = Point (pose (nextWaypoint target stepSize p))"
        "cfg s2 = cfg s1"
    by simp_all
  from g p farp m mv assms(2,6)
  have "moveLoop M target stepSize steps s = moveLoop M target stepSize (Suc steps) s2"
    by (simp add: moveLoop_iteration)
  with mv p w show ?thesis by auto
qed

lemma ceiling_after_move:
  fixes d stepSize :: real
  assumes "stepSize > 0" and "nat \<lceil>(d - 1) / stepSize\<rceil> = Suc k"
  shows "nat \<lceil>((if d \<le> stepSize then 0 else d - stepSize) - 1) / stepSize\<rceil> = k"
    and "1 < d"
proof -
  from assms(2) have c1: "\<lceil>(d - 1) / stepSize\<rceil> = int k + 1" by linarith
  then have "0 < \<lceil>(d - 1) / stepSize\<rceil>" by linarith
  then have "0 < (d - 1) / stepSize" using zero_less_ceiling by blast
  with assms(1) show far: "1 < d" by (simp add: zero_less_divide_iff)
  show "nat \<lceil>((if d \<le> stepSize then 0 else d - stepSize) - 1) / stepSize\<rceil> = k"
  proof (cases "d \<le> stepSize")
    case True
    with far assms(1) have "(d - 1) / stepSize \<le> 1" by simp
    then have "\<lceil>(d - 1) / stepSize\<rceil> \<le> 1" by (simp add: ceiling_le_iff)
    with c1 have "k = 0" by simp
    moreover from assms(1) have "\<lceil>(0 - 1) / stepSize\<rceil> \<le> 0"
      by (simp add: ceiling_le_iff)
    ultimately show ?thesis using True by simp
  next
    case False
    from assms(1) have "(d - stepSize - 1) / stepSize = (d - 1) / stepSize - 1"
      by (simp add: field_simps)
    then have "\<lceil>(d - stepSize - 1) / stepSize\<rceil> = \<lceil>(d - 1) / stepSize\<rceil> - 1" by simp
    with c1 False show ?thesis by simp
  qed
qed


lemma moveLoop_exhausts:
  assumes "landsExactly M g position" and "Gripper (cfg s) = g"
      and "wholeMm target" and "stepSize \<in> \<int>" and "stepSize > 0"
      and "wholeMm (position (world s))" and "alongAxis target (position (world s))"
      and "steps \<le> maxSteps"
      and "maxSteps - steps \<le> nat \<lceil>(distance target (position (world s)) - 1) / stepSize\<rceil>"
  shows "fst (moveLoop M target stepSize steps s) = Inr maxSteps"
  using assms
proof (induction "maxSteps - steps" arbitrary: steps s)
  case 0
  then show ?case by (simp add: moveLoop_exit)
next
  case (Suc m)
  then have lt: "steps < maxSteps" by simp
  from Suc.hyps(2) Suc.prems(9) obtain k where
    k: "nat \<lceil>(distance target (position (world s)) - 1) / stepSize\<rceil> = Suc k"
    by (cases "nat \<lceil>(distance target (position (world s)) - 1) / stepSize\<rceil>") simp_all
  note c = ceiling_after_move [OF Suc.prems(5) k]
  from exact_iteration [OF Suc.prems(1,2,3,4,5) lt Suc.prems(6,7) c(2)] obtain s2 where
    s2: "moveLoop M target stepSize steps s = moveLoop M target stepSize (Suc steps) s2"
        "cfg s2 = cfg s"
        "wholeMm (position (world s2))" "alongAxis target (position (world s2))"
        "distance target (position (world s2))
           = (if distance target (position (world s)) \<le> stepSize then 0
              else distance target (position (world s)) - stepSize)"
    by blast
  from Suc.hyps(2) have m: "m = maxSteps - Suc steps" by simp
  from Suc.prems(2) s2(2) have g2: "Gripper (cfg s2) = g" by simp
  from lt have le: "Suc steps \<le> maxSteps" by simp
  from c(1) s2(5) k Suc.hyps(2) Suc.prems(9)
  have "maxSteps - Suc steps \<le> nat \<lceil>(distance target (position (world s2)) - 1) / stepSize\<rceil>"
    by simp
  from Suc.hyps(1) [OF m Suc.prems(1) g2 Suc.prems(3,4,5) s2(3,4) le this] s2(1) show ?case
    by simp
qed

lemma sim_landsExactly: "landsExactly simRobot component Point"
  by (simp add: landsExactly_def simRobot_def)

lemma origin_point: "Point originPose = \<lparr>X = 0, Y = 0, Z = 0\<rparr>"
  by (simp add: originPose_def NewPose_def zeroVector_def)

lemma sim_start:
  "wholeMm (Point (world simService))" "Point (world simService) = \<lparr>X = 0, Y = 0, Z = 0\<rparr>"
  by (simp_all add: wholeMm_def simService_def NewHandEyeTest_def originPose_def NewPose_def
        zeroVector_def)




lemma sqrt_160000: "sqrt 160000 = 400"
  by (rule real_sqrt_unique) simp_all



subsection \<open>Where the count differs\<close>













lemma sqrt_between:
  assumes "0 \<le> a" and "a\<^sup>2 < y" and "y < b\<^sup>2" and "0 \<le> b"
  shows "a < sqrt y" and "sqrt y < b"
proof -
  from assms(2) show "a < sqrt y" by (rule real_less_rsqrt)
  from assms(1,2) have "0 \<le> y" by (meson less_eq_real_def order_trans zero_le_power2)
  with assms(3,4) show "sqrt y < b" by (intro real_less_lsqrt) simp_all
qed

lemma sqrt_scale: "0 \<le> c \<Longrightarrow> sqrt (v * c\<^sup>2) = sqrt v * c"
  by (simp add: real_sqrt_mult)









text \<open>
  Fractions of a millimetre round as well. With the \<open>float64\<close> values of 1.1 and 0.1 as
  target coordinate and step size, \<open>2476979795053773 / 2 ^ 51\<close> and
  \<open>3602879701896397 / 2 ^ 55\<close>, the difference computed after the first move is exactly 1,
  so the loop returns 1, while \<open>(D - 1) / S\<close> is above 1 for these two values.
\<close>

lemma fsub_a_0: "fsub (2476979795053773 / 2 ^ 51) 0 = 2476979795053773 / 2 ^ 51"
  unfolding fsub_def
  by (subst fl_eval [where E = 0]) (simp_all add: roundEven_def power_int_minus)

lemma fmul_a_a:
  "fmul (2476979795053773 / 2 ^ 51) (2476979795053773 / 2 ^ 51) = 5449355549118301 / 2 ^ 52"
  unfolding fmul_def
  by (subst fl_eval [where E = 0]) (simp_all add: roundEven_def power_int_minus)

lemma fadd_aa_0: "fadd (5449355549118301 / 2 ^ 52) 0 = 5449355549118301 / 2 ^ 52"
  unfolding fadd_def
  by (subst fl_eval [where E = 0]) (simp_all add: roundEven_def power_int_minus)

lemma fsqrt_aa: "fsqrt (5449355549118301 / 2 ^ 52) = 2476979795053773 / 2 ^ 51"
proof -
  let ?v = "5449355549118301 / 2 ^ 52 :: real"
  have r: "1 \<le> sqrt ?v" "sqrt ?v < 2"
    using sqrt_between [of 1 ?v 2] by simp_all
  have sc: "sqrt (?v * (2 ^ 52)\<^sup>2) = sqrt ?v * 2 ^ 52"
    by (rule sqrt_scale) simp
  have "4953959590107546 - 1 / 2 < sqrt (?v * (2 ^ 52)\<^sup>2)"
    "sqrt (?v * (2 ^ 52)\<^sup>2) < 4953959590107546 + 1 / 2"
    using sqrt_between [of "4953959590107546 - 1 / 2" "?v * (2 ^ 52)\<^sup>2" "4953959590107546 + 1 / 2"]
    by (simp_all add: power2_eq_square)
  then have b: "4953959590107546 - 1 / 2 < sqrt ?v * 2 ^ 52"
    "sqrt ?v * 2 ^ 52 < 4953959590107546 + 1 / 2"
    unfolding sc .
  have "roundEven (sqrt ?v * 2 ^ 52) = 4953959590107546"
    by (rule roundEven_near) (use b in simp_all)
  moreover have "fl (sqrt ?v) = of_int (roundEven (sqrt ?v / 2 powi (0 - 52))) * 2 powi (0 - 52)"
    using r by (intro fl_eval) simp_all
  ultimately show ?thesis by (simp add: fsqrt_def power_int_minus)
qed

lemma fdiv_a_a: "fdiv (2476979795053773 / 2 ^ 51) (2476979795053773 / 2 ^ 51) = 1"
  by (simp add: fdiv_def)

lemma fmul_1_S: "fmul 1 (3602879701896397 / 2 ^ 55) = 3602879701896397 / 2 ^ 55"
  unfolding fmul_def
  by (subst fl_eval [where E = "-4"]) (simp_all add: roundEven_def power_int_minus)

lemma fadd_0_S: "fadd 0 (3602879701896397 / 2 ^ 55) = 3602879701896397 / 2 ^ 55"
  unfolding fadd_def
  by (subst fl_eval [where E = "-4"]) (simp_all add: roundEven_def power_int_minus)

lemma fsub_a_S: "fsub (2476979795053773 / 2 ^ 51) (3602879701896397 / 2 ^ 55) = 1"
  unfolding fsub_def
  by (subst fl_eval [where E = 0]) (simp_all add: roundEven_def power_int_minus)

lemma formula_a_S:
  "\<lceil>(2476979795053773 / 2 ^ 51 - 1) / (3602879701896397 / 2 ^ 55 :: real)\<rceil> = 2"
  by (simp add: ceiling_eq_iff)

lemma fractional_start:
  "distance \<lparr>X = 2476979795053773 / 2 ^ 51, Y = 0, Z = 0\<rparr> \<lparr>X = 0, Y = 0, Z = 0\<rparr>
     = 2476979795053773 / 2 ^ 51"
  by (simp only: distance_def Vector.simps fsub_a_0 fmul_a_a float_zero fadd_aa_0
        fsqrt_aa)

lemma fractional_first_waypoint:
  "Point (pose (nextWaypoint \<lparr>X = 2476979795053773 / 2 ^ 51, Y = 0, Z = 0\<rparr>
                  (3602879701896397 / 2 ^ 55) originPose))
     = \<lparr>X = 3602879701896397 / 2 ^ 55, Y = 0, Z = 0\<rparr>"
proof -
  have c: "\<not> 2476979795053773 / 2 ^ 51 \<le> (3602879701896397 / 2 ^ 55 :: real)" by simp
  have x: "fadd 0 (fmul (fdiv (fsub (2476979795053773 / 2 ^ 51) 0) (2476979795053773 / 2 ^ 51))
                        (3602879701896397 / 2 ^ 55)) = 3602879701896397 / 2 ^ 55"
    unfolding fsub_a_0 fdiv_a_a fmul_1_S fadd_0_S ..
  have z: "fadd 0 (fmul (fdiv (fsub 0 0) (2476979795053773 / 2 ^ 51))
                        (3602879701896397 / 2 ^ 55)) = 0"
    unfolding float_zero ..
  show ?thesis
    by (simp only: nextWaypoint_def Let_def fractional_start c if_False origin_point
          Vector.simps x z NewPoseInFrame_def NewPose_def PoseInFrame.simps Pose.simps)
qed

lemma fractional_second_distance:
  "distance \<lparr>X = 2476979795053773 / 2 ^ 51, Y = 0, Z = 0\<rparr>
     \<lparr>X = 3602879701896397 / 2 ^ 55, Y = 0, Z = 0\<rparr> = 1"
  by (simp only: distance_def Vector.simps fsub_a_S float_zero)
     (simp add: float_ops fl_0)

lemma fractional_run:
  "resultField (fst (handleMoveTo simRobot \<lparr>X = 2476979795053773 / 2 ^ 51, Y = 0, Z = 0\<rparr>
                       (3602879701896397 / 2 ^ 55) simService)) ''success''
       = Some (VBool True)
   \<and> resultField (fst (handleMoveTo simRobot \<lparr>X = 2476979795053773 / 2 ^ 51, Y = 0, Z = 0\<rparr>
                       (3602879701896397 / 2 ^ 55) simService)) ''steps''
       = Some (VInt 1)"
proof -
  let ?T = "\<lparr>X = 2476979795053773 / 2 ^ 51, Y = 0, Z = 0\<rparr>"
  let ?S = "3602879701896397 / 2 ^ 55 :: real"
  have d0: "\<not> distance ?T (Point originPose) \<le> 1"
    by (simp only: origin_point fractional_start) simp
  have d1: "distance ?T (Point (pose (nextWaypoint ?T ?S originPose))) = 1"
    by (simp only: fractional_first_waypoint fractional_second_distance)
  show ?thesis
    using d0 d1
    by (simp add: handleMoveTo_def moveLoop_iteration maxSteps_def motionGetPose_def
          motionMove_def simRobot_def simService_def simConfig_def NewHandEyeTest_def
          resultField_def)
qed

lemma fractional_count:
  "distance \<lparr>X = 2476979795053773 / 2 ^ 51, Y = 0, Z = 0\<rparr> (Point (world simService))
     = 2476979795053773 / 2 ^ 51
   \<and> resultField (fst (handleMoveTo simRobot \<lparr>X = 2476979795053773 / 2 ^ 51, Y = 0, Z = 0\<rparr>
                       (3602879701896397 / 2 ^ 55) simService)) ''steps''
       = Some (VInt 1)
   \<and> \<lceil>(2476979795053773 / 2 ^ 51 - 1) / (3602879701896397 / 2 ^ 55 :: real)\<rceil> = 2"
proof -
  have "distance \<lparr>X = 2476979795053773 / 2 ^ 51, Y = 0, Z = 0\<rparr> (Point (world simService))
     = 2476979795053773 / 2 ^ 51"
    by (simp only: sim_start(2) fractional_start)
  with fractional_run formula_a_S show ?thesis by (simp only: simp_thms)
qed

text \<open>
  At the cap itself the run does not succeed: with \<open>D = 400\<close> and \<open>S = 2\<close> the gripper is
  within 1 mm only after the 200th move, and the loop is left by its condition.
\<close>

lemma cap_edge_exhausted:
  "distance \<lparr>X = 400, Y = 0, Z = 0\<rparr> (Point (world simService)) = 400
   \<and> \<lceil>400 / (2::real)\<rceil> = 200
   \<and> fst (handleMoveTo simRobot \<lparr>X = 400, Y = 0, Z = 0\<rparr> 2 simService)
       = Inl (DidNotReachTarget 200)"
proof -
  have d: "distance \<lparr>X = 400, Y = 0, Z = 0\<rparr> (Point (world simService)) = 400"
    by (simp add: distance_def float_ops fl_0 sim_start(2) sqrt_160000)
  have c: "\<lceil>(400 - 1) / (2::real)\<rceil> = 200" by (simp add: ceiling_eq_iff)
  have w: "wholeMm \<lparr>X = 400, Y = 0, Z = 0\<rparr>" by (simp add: wholeMm_def)
  have "fst (moveLoop simRobot \<lparr>X = 400, Y = 0, Z = 0\<rparr> 2 0
               (simService\<lparr>currentStatus := ''moving''\<rparr>)) = Inr maxSteps"
  proof (rule moveLoop_exhausts [where g = "''gripper''" and position = Point])
    show "landsExactly simRobot ''gripper'' Point" by (rule sim_landsExactly)
    show "Gripper (cfg (simService\<lparr>currentStatus := ''moving''\<rparr>)) = ''gripper''"
      by (simp add: simService_def NewHandEyeTest_def simConfig_def)
    show "wholeMm \<lparr>X = 400, Y = 0, Z = 0\<rparr>" by (rule w)
    show "(2::real) \<in> \<int>" "(2::real) > 0" by simp_all
    show "wholeMm (Point (world (simService\<lparr>currentStatus := ''moving''\<rparr>)))"
      using sim_start(1) by simp
    show "alongAxis \<lparr>X = 400, Y = 0, Z = 0\<rparr>
            (Point (world (simService\<lparr>currentStatus := ''moving''\<rparr>)))"
      by (simp add: alongAxis_def sim_start(2))
    show "0 \<le> maxSteps" by simp
    show "maxSteps - 0 \<le> nat \<lceil>(distance \<lparr>X = 400, Y = 0, Z = 0\<rparr>
            (Point (world (simService\<lparr>currentStatus := ''moving''\<rparr>))) - 1) / 2\<rceil>"
      using d c by (simp add: maxSteps_def)
  qed
  then have "fst (handleMoveTo simRobot \<lparr>X = 400, Y = 0, Z = 0\<rparr> 2 simService)
       = Inl (DidNotReachTarget 200)"
    by (cases "moveLoop simRobot \<lparr>X = 400, Y = 0, Z = 0\<rparr> 2 0
               (simService\<lparr>currentStatus := ''moving''\<rparr>)")
       (simp add: handleMoveTo_def maxSteps_def)
  with d show ?thesis by (simp add: ceiling_eq_iff)
qed

end
